theory Spec2Isabelle
  imports Complex_Main "HOL-Library.Char_ord" "HOL-Library.AList"
begin

section \<open>Python values: errors, strings, numbers\<close>

text \<open>
  Exceptions of the source are values. A function of the source that may raise returns
  \<open>py_error + 'a\<close>, with \<open>Inl\<close> for the exception.
\<close>

datatype py_error =
  ValueError | OverflowError | KeyError | TypeError | IndexError
  | ZeroDivisionError | RuntimeError | FileNotFoundError | TimeoutExpired | OtherError

subsection \<open>Strings\<close>

text \<open>
  Strings are lists of 8-bit characters. The telemetry the source parses (\<open>kubectl top\<close>,
  \<open>ping\<close>, \<open>dd\<close>) is ASCII; the white space of \<open>str.strip\<close> and \<open>str.split()\<close> is the
  ASCII white space of Python: tab, line feed, vertical tab, form feed, carriage return,
  the separators 28 to 31, and space.
\<close>

definition is_space :: "char \<Rightarrow> bool" where
  "is_space c = (let n = (of_char c :: nat) in (9 \<le> n \<and> n \<le> 13) \<or> (28 \<le> n \<and> n \<le> 32))"

definition is_digit :: "char \<Rightarrow> bool" where
  "is_digit c = (let n = (of_char c :: nat) in 48 \<le> n \<and> n \<le> 57)"

definition digit_val :: "char \<Rightarrow> int" where
  "digit_val c = (of_char c :: int) - 48"

definition lower_char :: "char \<Rightarrow> char" where
  "lower_char c = (let n = (of_char c :: nat) in if 65 \<le> n \<and> n \<le> 90 then char_of (n + 32) else c)"

definition lower :: "string \<Rightarrow> string" where
  "lower s = map lower_char s"

definition strip :: "string \<Rightarrow> string" where
  "strip s = rev (dropWhile is_space (rev (dropWhile is_space s)))"

definition endswith :: "string \<Rightarrow> string \<Rightarrow> bool" where
  "endswith s suf = (length suf \<le> length s \<and> drop (length s - length suf) s = suf)"

definition startswith :: "string \<Rightarrow> string \<Rightarrow> bool" where
  "startswith s pre = (take (length pre) s = pre)"

text \<open>\<open>s[:-k]\<close> for a positive \<open>k\<close>.\<close>

definition drop_last :: "nat \<Rightarrow> string \<Rightarrow> string" where
  "drop_last k s = take (length s - k) s"

text \<open>\<open>sub in s\<close> on strings.\<close>

fun contains :: "string \<Rightarrow> string \<Rightarrow> bool" where
  "contains sub [] = (sub = [])"
| "contains sub (c # cs) = (startswith (c # cs) sub \<or> contains sub cs)"

text \<open>\<open>s.split(sep)\<close> for a one-character separator: never empty, keeps empty fields.\<close>

fun split_on :: "char \<Rightarrow> string \<Rightarrow> string list" where
  "split_on sep [] = [[]]"
| "split_on sep (c # cs) =
     (if c = sep then [] # split_on sep cs
      else (case split_on sep cs of [] \<Rightarrow> [[c]] | w # ws \<Rightarrow> (c # w) # ws))"

text \<open>\<open>s.split()\<close>: fields separated by runs of white space, no empty field.\<close>

fun split_ws_acc :: "string \<Rightarrow> string \<Rightarrow> string list" where
  "split_ws_acc cur [] = (if cur = [] then [] else [rev cur])"
| "split_ws_acc cur (c # cs) =
     (if is_space c then (if cur = [] then split_ws_acc [] cs else rev cur # split_ws_acc [] cs)
      else split_ws_acc (c # cur) cs)"

definition split_ws :: "string \<Rightarrow> string list" where
  "split_ws s = split_ws_acc [] s"

subsection \<open>Integers from strings\<close>

text \<open>
  \<open>int(s)\<close> on a string, base ten: surrounding white space is dropped, then an optional
  sign and a digit part, where single underscores may separate digits. Anything else
  raises \<open>ValueError\<close>.
\<close>

fun digits_acc :: "int \<Rightarrow> nat \<Rightarrow> string \<Rightarrow> int \<times> nat \<times> string" where
  "digits_acc v n [] = (v, n, [])"
| "digits_acc v n [c] = (if is_digit c then (10 * v + digit_val c, Suc n, []) else (v, n, [c]))"
| "digits_acc v n (c # d # ds) =
     (if is_digit c then digits_acc (10 * v + digit_val c) (Suc n) (d # ds)
      else if c = CHR ''_'' \<and> is_digit d then digits_acc (10 * v + digit_val d) (Suc n) ds
      else (v, n, c # d # ds))"

text \<open>A digit part: value, number of digits, and the rest of the string.\<close>

definition digitpart :: "string \<Rightarrow> (int \<times> nat \<times> string) option" where
  "digitpart s = (case s of [] \<Rightarrow> None | c # cs \<Rightarrow> if is_digit c then Some (digits_acc 0 0 s) else None)"

definition take_sign :: "string \<Rightarrow> bool \<times> string" where
  "take_sign s = (case s of [] \<Rightarrow> (False, [])
     | c # cs \<Rightarrow> if c = CHR ''-'' then (True, cs) else if c = CHR ''+'' then (False, cs) else (False, s))"

definition py_int :: "string \<Rightarrow> py_error + int" where
  "py_int s =
     (let (neg, body) = take_sign (strip s) in
      case digitpart body of
        Some (v, n, []) \<Rightarrow> Inr (if neg then - v else v)
      | _ \<Rightarrow> Inl ValueError)"

subsection \<open>Floats\<close>

text \<open>
  A Python float is an IEEE 754 binary64 value: a finite rational, an infinity or
  not-a-number. The sign of zero is not kept: no operation of the source that is modelled
  here tells the two zeros apart.
\<close>

datatype pyfloat = Fin real | PInf | NInf | NaN

function bit_length :: "int \<Rightarrow> int" where
  "bit_length n = (if n \<le> 0 then 0 else 1 + bit_length (n div 2))"
  by pat_completeness auto
termination
  by (relation "measure nat") auto

declare bit_length.simps [simp del]

definition pow2 :: "int \<Rightarrow> real" where
  "pow2 k = (if 0 \<le> k then 2 ^ nat k else 1 / 2 ^ nat (- k))"

text \<open>
  The exponent \<open>e\<close> with \<open>2^e \<le> a < 2^(e+1)\<close>, for a positive rational \<open>a\<close>: from the
  bit length of the integer part when \<open>a\<close> is at least one, and of the inverse otherwise.
\<close>

definition floor_log2 :: "real \<Rightarrow> int" where
  "floor_log2 a = (if 1 \<le> a then bit_length \<lfloor>a\<rfloor> - 1 else - bit_length (\<lceil>1 / a\<rceil> - 1))"

definition round_half_even :: "real \<Rightarrow> int" where
  "round_half_even q =
     (let f = \<lfloor>q\<rfloor>; d = q - of_int f in
      if d < 1 / 2 then f else if 1 / 2 < d then f + 1 else if even f then f else f + 1)"

text \<open>
  Rounding a rational to the nearest binary64 value, ties to even: 53 bits of
  significand, exponents from -1022 (below that the spacing is that of the subnormal
  numbers), overflow to infinity from \<open>2^1024\<close>.
\<close>

definition round64 :: "real \<Rightarrow> pyfloat" where
  "round64 q =
     (if q = 0 then Fin 0
      else
        let a = \<bar>q\<bar>; e = floor_log2 a; inf = (if q < 0 then NInf else PInf) in
        if 1024 \<le> e then inf
        else
          let ulp = pow2 (max e (- 1022) - 52); m = round_half_even (a / ulp) in
          if e = 1023 \<and> m = 2 ^ 53 then inf
          else Fin ((if q < 0 then - 1 else 1) * of_int m * ulp))"

text \<open>Multiplication of two floats, and of a float by an integer constant (converted first).\<close>

fun fsign :: "pyfloat \<Rightarrow> int" where
  "fsign (Fin q) = (if q < 0 then - 1 else if q = 0 then 0 else 1)"
| "fsign PInf = 1"
| "fsign NInf = - 1"
| "fsign NaN = 0"

fun fmul :: "pyfloat \<Rightarrow> pyfloat \<Rightarrow> pyfloat" where
  "fmul NaN _ = NaN"
| "fmul _ NaN = NaN"
| "fmul (Fin a) (Fin b) = round64 (a * b)"
| "fmul x y = (let s = fsign x * fsign y in if s = 0 then NaN else if s < 0 then NInf else PInf)"

definition float_of_int :: "int \<Rightarrow> pyfloat" where
  "float_of_int i = round64 (of_int i)"

text \<open>
  True division: of two integers (correctly rounded, \<open>OverflowError\<close> when the quotient is
  too large for a float) and of two floats. Division by zero raises.
\<close>

definition int_truediv :: "int \<Rightarrow> int \<Rightarrow> py_error + pyfloat" where
  "int_truediv a b =
     (if b = 0 then Inl ZeroDivisionError
      else (case round64 (of_int a / of_int b) of
              Fin q \<Rightarrow> Inr (Fin q)
            | _ \<Rightarrow> Inl OverflowError))"

fun fdiv :: "pyfloat \<Rightarrow> pyfloat \<Rightarrow> py_error + pyfloat" where
  "fdiv x (Fin b) =
     (if b = 0 then Inl ZeroDivisionError
      else (case x of Fin a \<Rightarrow> Inr (round64 (a / b))
            | NaN \<Rightarrow> Inr NaN
            | PInf \<Rightarrow> Inr (if b < 0 then NInf else PInf)
            | NInf \<Rightarrow> Inr (if b < 0 then PInf else NInf)))"
| "fdiv NaN _ = Inr NaN"
| "fdiv _ NaN = Inr NaN"
| "fdiv (Fin a) _ = Inr (Fin 0)"
| "fdiv _ _ = Inr NaN"

text \<open>Comparisons: every comparison with not-a-number is false.\<close>

fun fless :: "pyfloat \<Rightarrow> pyfloat \<Rightarrow> bool" where
  "fless NaN _ = False"
| "fless _ NaN = False"
| "fless (Fin a) (Fin b) = (a < b)"
| "fless NInf NInf = False"
| "fless NInf _ = True"
| "fless _ NInf = False"
| "fless PInf _ = False"
| "fless _ PInf = True"

fun fle :: "pyfloat \<Rightarrow> pyfloat \<Rightarrow> bool" where
  "fle NaN _ = False"
| "fle _ NaN = False"
| "fle x y = (x = y \<or> fless x y)"

text \<open>\<open>int(x)\<close> on a float truncates towards zero; it raises on infinities and not-a-number.\<close>

definition trunc :: "real \<Rightarrow> int" where
  "trunc q = (if q < 0 then - \<lfloor>- q\<rfloor> else \<lfloor>q\<rfloor>)"

fun int_of_float :: "pyfloat \<Rightarrow> py_error + int" where
  "int_of_float (Fin q) = Inr (trunc q)"
| "int_of_float NaN = Inl ValueError"
| "int_of_float _ = Inl OverflowError"

text \<open>
  \<open>float(s)\<close> on a string: surrounding white space is dropped; then an optional sign and
  either \<open>inf\<close>, \<open>infinity\<close> or \<open>nan\<close> in any case, or a decimal number
  (\<open>12\<close>, \<open>12.\<close>, \<open>12.5\<close>, \<open>.5\<close>) with an optional exponent. The decimal value is rounded
  once, to the nearest binary64 value. Anything else raises \<open>ValueError\<close>.
\<close>

definition parse_number :: "string \<Rightarrow> (real \<times> string) option" where
  "parse_number s =
     (case digitpart s of
        Some (i, _, r1) \<Rightarrow>
          (case r1 of
             c # r2 \<Rightarrow>
               if c = CHR ''.'' then
                 (case digitpart r2 of
                    Some (f, k, r3) \<Rightarrow> Some (of_int i + of_int f / 10 ^ k, r3)
                  | None \<Rightarrow> Some (of_int i, r2))
               else Some (of_int i, r1)
           | [] \<Rightarrow> Some (of_int i, []))
      | None \<Rightarrow>
          (case s of
             c # r2 \<Rightarrow>
               if c = CHR ''.'' then
                 (case digitpart r2 of
                    Some (f, k, r3) \<Rightarrow> Some (of_int f / 10 ^ k, r3)
                  | None \<Rightarrow> None)
               else None
           | [] \<Rightarrow> None))"

definition parse_exponent :: "string \<Rightarrow> int option" where
  "parse_exponent r =
     (case r of
        [] \<Rightarrow> Some 0
      | c # r1 \<Rightarrow>
          if c = CHR ''e'' \<or> c = CHR ''E'' then
            (let (neg, body) = take_sign r1 in
             case digitpart body of
               Some (v, n, []) \<Rightarrow> Some (if neg then - v else v)
             | _ \<Rightarrow> None)
          else None)"

definition pow10 :: "int \<Rightarrow> real" where
  "pow10 k = (if 0 \<le> k then 10 ^ nat k else 1 / 10 ^ nat (- k))"

definition py_float :: "string \<Rightarrow> py_error + pyfloat" where
  "py_float s =
     (let (neg, body) = take_sign (strip s); lb = lower body in
      if lb = ''inf'' \<or> lb = ''infinity'' then Inr (if neg then NInf else PInf)
      else if lb = ''nan'' then Inr NaN
      else
        (case parse_number body of
           None \<Rightarrow> Inl ValueError
         | Some (m, r) \<Rightarrow>
             (case parse_exponent r of
                None \<Rightarrow> Inl ValueError
              | Some e \<Rightarrow> Inr (round64 ((if neg then - m else m) * pow10 e)))))"

section \<open>Unit parsers of the recovery oracle\<close>

text \<open>\<open>parse_cpu_to_millicores\<close>: a trailing \<open>m\<close> means millicores, else cores.\<close>

definition parse_cpu_to_millicores :: "string \<Rightarrow> py_error + int" where
  "parse_cpu_to_millicores cpu_str =
     (if endswith cpu_str ''m'' then py_int (drop_last 1 cpu_str)
      else (case py_float cpu_str of
              Inl e \<Rightarrow> Inl e
            | Inr x \<Rightarrow> int_of_float (fmul x (float_of_int 1000))))"

text \<open>The shared shape of the suffix branches of \<open>parse_memory_to_bytes\<close>.\<close>

definition scaled :: "string \<Rightarrow> nat \<Rightarrow> int \<Rightarrow> py_error + int" where
  "scaled s k factor =
     (case py_float (drop_last k s) of
        Inl e \<Rightarrow> Inl e
      | Inr x \<Rightarrow> int_of_float (fmul x (float_of_int factor)))"

definition parse_memory_to_bytes :: "string \<Rightarrow> py_error + int" where
  "parse_memory_to_bytes mem_str0 =
     (let mem_str = strip mem_str0 in
      if endswith mem_str ''Ki'' then scaled mem_str 2 1024
      else if endswith mem_str ''Mi'' then scaled mem_str 2 (1024 ^ 2)
      else if endswith mem_str ''Gi'' then scaled mem_str 2 (1024 ^ 3)
      else if endswith mem_str ''Ti'' then scaled mem_str 2 (1024 ^ 4)
      else if endswith mem_str ''Pi'' then scaled mem_str 2 (1024 ^ 5)
      else if endswith mem_str ''Ei'' then scaled mem_str 2 (1024 ^ 6)
      else if endswith mem_str ''K'' then scaled mem_str 1 1000
      else if endswith mem_str ''M'' then scaled mem_str 1 (1000 ^ 2)
      else if endswith mem_str ''G'' then scaled mem_str 1 (1000 ^ 3)
      else if endswith mem_str ''T'' then scaled mem_str 1 (1000 ^ 4)
      else py_int mem_str)"

section \<open>Recovery oracle: shared data\<close>

text \<open>
  What the cluster client returns for a pod, as far as the oracle reads it. \<open>limits\<close> is
  \<open>None\<close> when the container has no \<open>resources\<close> or no \<open>limits\<close>; the limits themselves
  are the key/value pairs of the dictionary. \<open>conditions\<close> may be absent.
\<close>

record container =
  cname :: string
  limits :: "(string \<times> string) list option"

record pod =
  pname :: string
  deletion_timestamp :: "string option"
  phase :: string
  conditions :: "(string \<times> string) list option"
  containers :: "container list"

text \<open>
  The outcome of \<open>subprocess.run\<close>: it completes with a return code, standard output and
  standard error, or it raises (\<open>TimeoutExpired\<close>, \<open>FileNotFoundError\<close>, ...).
\<close>

datatype proc_result = Completed int string string | ProcRaises py_error



text \<open>The judgement of one container in one round.\<close>

datatype verdict = Skipped | Passes | Fails

section \<open>Recovery oracle: CPU\<close>

text \<open>
  \<open>get_container_cpu_limit_millicores\<close>: the first container of that name with limits
  decides. The source repeats the two branches of \<open>parse_cpu_to_millicores\<close> inline.
\<close>

definition has_limits :: "container \<Rightarrow> bool" where
  "has_limits c = (case limits c of None \<Rightarrow> False | Some l \<Rightarrow> l \<noteq> [])"

definition limit_of :: "container \<Rightarrow> string \<Rightarrow> string option" where
  "limit_of c key = (case limits c of None \<Rightarrow> None | Some l \<Rightarrow> map_of l key)"

fun cpu_limit_in :: "container list \<Rightarrow> string \<Rightarrow> py_error + int option" where
  "cpu_limit_in [] container_name = Inr None"
| "cpu_limit_in (c # cs) container_name =
     (if cname c = container_name \<and> has_limits c then
        (case limit_of c ''cpu'' of
           None \<Rightarrow> Inr None
         | Some cpu_limit \<Rightarrow>
             if cpu_limit = [] then Inr None
             else (case parse_cpu_to_millicores cpu_limit of
                     Inl e \<Rightarrow> Inl e
                   | Inr m \<Rightarrow> Inr (Some m)))
      else cpu_limit_in cs container_name)"

definition get_container_cpu_limit_millicores :: "pod \<Rightarrow> string \<Rightarrow> py_error + int option" where
  "get_container_cpu_limit_millicores p container_name = cpu_limit_in (containers p) container_name"

text \<open>
  The body of the loop over the lines of \<open>kubectl top pod --containers\<close>: a line is
  skipped (fewer than three fields, a sidecar, an unknown pod, no limit), or its container
  is judged by usage over limit against the threshold. Parsing may raise.
\<close>

definition cpu_line :: "pod list \<Rightarrow> pyfloat \<Rightarrow> string \<Rightarrow> py_error + verdict" where
  "cpu_line pods threshold line =
     (let parts = split_ws line in
      if length parts < 3 then Inr Skipped
      else
        let pod_name = parts ! 0; container_name = parts ! 1; cpu_str = parts ! 2 in
        if contains ''sidecar'' container_name \<or> contains ''busybox'' container_name then Inr Skipped
        else
          (case find (\<lambda>p. pname p = pod_name) pods of
             None \<Rightarrow> Inr Skipped
           | Some p \<Rightarrow>
               (case parse_cpu_to_millicores cpu_str of
                  Inl e \<Rightarrow> Inl e
                | Inr current_cpu_m \<Rightarrow>
                    (case get_container_cpu_limit_millicores p container_name of
                       Inl e \<Rightarrow> Inl e
                     | Inr None \<Rightarrow> Inr Skipped
                     | Inr (Some limit_cpu_m) \<Rightarrow>
                         if limit_cpu_m = 0 then Inr Skipped
                         else
                           (case int_truediv current_cpu_m limit_cpu_m of
                              Inl e \<Rightarrow> Inl e
                            | Inr usage_ratio \<Rightarrow>
                                Inr (if fle threshold usage_ratio then Fails else Passes))))))"

text \<open>The loop over the lines, with the flag \<open>all_cpu_normal\<close>; an exception leaves it.\<close>

fun cpu_lines :: "pod list \<Rightarrow> pyfloat \<Rightarrow> string list \<Rightarrow> bool \<Rightarrow> py_error + bool" where
  "cpu_lines pods threshold [] all_cpu_normal = Inr all_cpu_normal"
| "cpu_lines pods threshold (line # rest) all_cpu_normal =
     (case cpu_line pods threshold line of
        Inl e \<Rightarrow> Inl e
      | Inr Fails \<Rightarrow> cpu_lines pods threshold rest False
      | Inr _ \<Rightarrow> cpu_lines pods threshold rest all_cpu_normal)"

text \<open>
  One round of the metric loop. The \<open>try\<close> block gives \<open>True\<close> when the function returns
  \<open>True\<close> from this round, \<open>False\<close> when it goes on to the next round; the handler
  \<open>except Exception\<close> turns every exception into going on.
\<close>

definition cpu_round_try :: "pod list \<Rightarrow> pyfloat \<Rightarrow> proc_result \<Rightarrow> py_error + bool" where
  "cpu_round_try pods threshold res =
     (case res of
        ProcRaises e \<Rightarrow> Inl e
      | Completed returncode out err \<Rightarrow>
          if returncode \<noteq> 0 then Inr False
          else
            let lines = split_on (CHR 0x0A) (strip out) in
            if length lines < 2 then Inr False
            else cpu_lines pods threshold (tl lines) True)"

definition cpu_round :: "pod list \<Rightarrow> pyfloat \<Rightarrow> proc_result \<Rightarrow> bool" where
  "cpu_round pods threshold res =
     (case cpu_round_try pods threshold res of Inl e \<Rightarrow> False | Inr b \<Rightarrow> b)"



section \<open>Recovery oracle: memory\<close>

text \<open>\<open>get_container_memory_limit_bytes\<close>\<close>

definition get_container_memory_limit_bytes :: "container \<Rightarrow> py_error + int option" where
  "get_container_memory_limit_bytes c =
     (if \<not> has_limits c then Inr None
      else (case limit_of c ''memory'' of
              None \<Rightarrow> Inr None
            | Some mem_limit \<Rightarrow>
                if mem_limit = [] then Inr None
                else (case parse_memory_to_bytes mem_limit of
                        Inl e \<Rightarrow> Inl e
                      | Inr b \<Rightarrow> Inr (Some b))))"

text \<open>
  \<open>get_container_memory_usage_bytes\<close>, given the outcome of its \<open>kubectl top pod\<close>: the
  first line of that container with four fields decides; every exception gives \<open>None\<close>.
\<close>

fun usage_in_lines :: "string list \<Rightarrow> string \<Rightarrow> py_error + int option" where
  "usage_in_lines [] container_name = Inr None"
| "usage_in_lines (line # rest) container_name =
     (let parts = split_ws line in
      if length parts < 4 then usage_in_lines rest container_name
      else if parts ! 1 = container_name then
        (case parse_memory_to_bytes (parts ! 3) of Inl e \<Rightarrow> Inl e | Inr b \<Rightarrow> Inr (Some b))
      else usage_in_lines rest container_name)"

definition get_container_memory_usage_bytes :: "proc_result \<Rightarrow> string \<Rightarrow> int option" where
  "get_container_memory_usage_bytes res container_name =
     (case res of
        ProcRaises e \<Rightarrow> None
      | Completed returncode out err \<Rightarrow>
          if returncode \<noteq> 0 then None
          else (case usage_in_lines (tl (split_on (CHR 0x0A) (strip out))) container_name of
                  Inl e \<Rightarrow> None
                | Inr r \<Rightarrow> r))"











section \<open>Recovery oracle: network\<close>

text \<open>\<open>xs[i]\<close> on a list, for a non-negative index.\<close>

definition index :: "'a list \<Rightarrow> nat \<Rightarrow> py_error + 'a" where
  "index xs i = (if i < length xs then Inr (xs ! i) else Inl IndexError)"

text \<open>
  The handler \<open>except (IndexError, ValueError)\<close> with a default value; any other
  exception goes on to the enclosing handler.
\<close>

definition except_index_value :: "'a \<Rightarrow> py_error + 'a \<Rightarrow> py_error + 'a" where
  "except_index_value dflt r =
     (case r of
        Inl e \<Rightarrow> if e = IndexError \<or> e = ValueError then Inr dflt else Inl e
      | Inr v \<Rightarrow> Inr v)"

text \<open>
  The packet loss of a ping output: 100 unless the first line that mentions
  \<open>packet loss\<close> and \<open>transmitted\<close> carries a number before the percent sign of its third
  comma-separated field.
\<close>

definition loss_of_line :: "string \<Rightarrow> py_error + pyfloat" where
  "loss_of_line line =
     (case index (split_on CHR '','' line) 2 of
        Inl e \<Rightarrow> Inl e
      | Inr field \<Rightarrow>
          (case index (split_on CHR ''%'' (strip field)) 0 of
             Inl e \<Rightarrow> Inl e
           | Inr num \<Rightarrow> py_float num))"

fun loss_in_lines :: "string list \<Rightarrow> py_error + pyfloat" where
  "loss_in_lines [] = Inr (Fin 100)"
| "loss_in_lines (line # rest) =
     (if contains ''packet loss'' line \<and> contains ''transmitted'' line
      then except_index_value (Fin 100) (loss_of_line line)
      else loss_in_lines rest)"

text \<open>The average round trip: absent unless the first \<open>min/avg/max\<close> line carries it.\<close>

definition latency_of_line :: "string \<Rightarrow> py_error + pyfloat" where
  "latency_of_line line =
     (case index (split_on CHR ''='' line) 1 of
        Inl e \<Rightarrow> Inl e
      | Inr rhs \<Rightarrow>
          (case index (split_ws (strip rhs)) 0 of
             Inl e \<Rightarrow> Inl e
           | Inr time_part \<Rightarrow>
               (case index (split_on CHR ''/'' time_part) 1 of
                  Inl e \<Rightarrow> Inl e
                | Inr avg \<Rightarrow> py_float avg)))"

fun latency_in_lines :: "string list \<Rightarrow> py_error + pyfloat option" where
  "latency_in_lines [] = Inr None"
| "latency_in_lines (line # rest) =
     (if contains ''round-trip min/avg/max'' line \<or> contains ''rtt min/avg/max'' line
      then except_index_value None (map_sum id Some (latency_of_line line))
      else latency_in_lines rest)"

text \<open>
  The judgement of one pod from the return code and the output of its ping: \<open>True\<close> when
  the pod leaves \<open>all_ok\<close> as it is.
\<close>

definition ping_judge :: "pyfloat \<Rightarrow> pyfloat \<Rightarrow> int \<Rightarrow> string \<Rightarrow> py_error + bool" where
  "ping_judge max_latency_ms max_loss_percent returncode output =
     (if returncode \<noteq> 0 \<and> \<not> contains ''100% packet loss'' output then Inr False
      else
        (case loss_in_lines (split_on (CHR 0x0A) output) of
           Inl e \<Rightarrow> Inl e
         | Inr packet_loss_percent \<Rightarrow>
             if fless max_loss_percent packet_loss_percent then Inr False
             else
               (case latency_in_lines (split_on (CHR 0x0A) output) of
                  Inl e \<Rightarrow> Inl e
                | Inr None \<Rightarrow> Inr False
                | Inr (Some avg_latency) \<Rightarrow>
                    if fless max_latency_ms avg_latency then Inr False else Inr True)))"

text \<open>
  The \<open>try\<close> block for one pod, given the outcome of the ping in the main container and
  of the ping in the sidecar, which runs only when the first output says that the
  executable is missing.
\<close>

definition ping_pod_try :: "pyfloat \<Rightarrow> pyfloat \<Rightarrow> proc_result \<Rightarrow> proc_result \<Rightarrow> py_error + bool" where
  "ping_pod_try max_latency_ms max_loss_percent main sidecar =
     (case main of
        ProcRaises e \<Rightarrow> Inl e
      | Completed returncode out err \<Rightarrow>
          let output = strip (out @ err) in
          if contains ''executable file not found'' output \<or> contains ''OCI runtime exec failed'' output
          then
            (case sidecar of
               ProcRaises e \<Rightarrow> Inl e
             | Completed returncode2 out2 err2 \<Rightarrow>
                 ping_judge max_latency_ms max_loss_percent returncode2 (strip out2))
          else ping_judge max_latency_ms max_loss_percent returncode output)"

definition ping_pod :: "pyfloat \<Rightarrow> pyfloat \<Rightarrow> proc_result \<times> proc_result \<Rightarrow> bool" where
  "ping_pod max_latency_ms max_loss_percent probes =
     (case ping_pod_try max_latency_ms max_loss_percent (fst probes) (snd probes) of
        Inl e \<Rightarrow> False
      | Inr b \<Rightarrow> b)"

text \<open>A round observes, for every pod listed, the outcomes of its two pings.\<close>

fun ping_pods :: "pyfloat \<Rightarrow> pyfloat \<Rightarrow> (proc_result \<times> proc_result) list \<Rightarrow> bool \<Rightarrow> bool" where
  "ping_pods max_latency_ms max_loss_percent [] all_ok = all_ok"
| "ping_pods max_latency_ms max_loss_percent (p # ps) all_ok =
     (if ping_pod max_latency_ms max_loss_percent p
      then ping_pods max_latency_ms max_loss_percent ps all_ok
      else ping_pods max_latency_ms max_loss_percent ps False)"

definition ping_round :: "pyfloat \<Rightarrow> pyfloat \<Rightarrow> (proc_result \<times> proc_result) list \<Rightarrow> bool" where
  "ping_round max_latency_ms max_loss_percent pods =
     (if pods = [] then False else ping_pods max_latency_ms max_loss_percent pods True)"

fun ping_loop :: "pyfloat \<Rightarrow> pyfloat \<Rightarrow> (proc_result \<times> proc_result) list list \<Rightarrow> bool" where
  "ping_loop max_latency_ms max_loss_percent [] = False"
| "ping_loop max_latency_ms max_loss_percent (r # rs) =
     (if ping_round max_latency_ms max_loss_percent r then True
      else ping_loop max_latency_ms max_loss_percent rs)"

definition check_ping_latency_recovered ::
  "pod list list \<Rightarrow> (proc_result \<times> proc_result) list list \<Rightarrow> pyfloat \<Rightarrow> pyfloat \<Rightarrow> bool" where
  "check_ping_latency_recovered gate_polls rounds max_latency_ms max_loss_percent =
     ping_loop max_latency_ms max_loss_percent rounds"

section \<open>Recovery oracle: disk\<close>

text \<open>The commands the disk predicate runs in a pod, in the order it runs them.\<close>

datatype disk_event = DdWrite string | CleanUp string

text \<open>
  The \<open>try\<close> block for one pod, given the outcome of the timed write and of the removal
  of the test file. The removal is the last statement of the block.
\<close>

definition disk_speed :: "int \<Rightarrow> py_error + pyfloat" where
  "disk_speed duration_ms0 =
     (let duration_ms = (if duration_ms0 = 0 then 1 else duration_ms0) in
      case int_truediv duration_ms 1000 of
        Inl e \<Rightarrow> Inl e
      | Inr secs \<Rightarrow> fdiv (float_of_int 10) secs)"

definition disk_pod_try ::
  "pyfloat \<Rightarrow> string \<Rightarrow> proc_result \<Rightarrow> proc_result \<Rightarrow> disk_event list \<times> (py_error + bool)" where
  "disk_pod_try min_write_speed_mb pod_name dd rm =
     (case dd of
        ProcRaises e \<Rightarrow> ([DdWrite pod_name], Inl e)
      | Completed returncode out err \<Rightarrow>
          let output = strip out in
          if output = [] then ([DdWrite pod_name], Inr False)
          else
            (case py_int (last (split_on (CHR 0x0A) output)) of
               Inl e \<Rightarrow> ([DdWrite pod_name], Inl e)
             | Inr duration_ms \<Rightarrow>
                 (case disk_speed duration_ms of
                    Inl e \<Rightarrow> ([DdWrite pod_name], Inl e)
                  | Inr speed \<Rightarrow>
                      if fless speed min_write_speed_mb then ([DdWrite pod_name], Inr False)
                      else
                        (case rm of
                           ProcRaises e \<Rightarrow> ([DdWrite pod_name, CleanUp pod_name], Inl e)
                         | Completed rc2 out2 err2 \<Rightarrow>
                             ([DdWrite pod_name, CleanUp pod_name], Inr True)))))"

definition disk_pod :: "pyfloat \<Rightarrow> string \<times> proc_result \<times> proc_result \<Rightarrow> disk_event list \<times> bool" where
  "disk_pod min_write_speed_mb ob =
     (case ob of (pod_name, dd, rm) \<Rightarrow>
        (case disk_pod_try min_write_speed_mb pod_name dd rm of
           (evs, Inl e) \<Rightarrow> (evs, False)
         | (evs, Inr b) \<Rightarrow> (evs, b)))"

fun disk_pods ::
  "pyfloat \<Rightarrow> (string \<times> proc_result \<times> proc_result) list \<Rightarrow> bool \<Rightarrow> disk_event list \<times> bool" where
  "disk_pods min_write_speed_mb [] all_ok = ([], all_ok)"
| "disk_pods min_write_speed_mb (ob # obs) all_ok =
     (case disk_pod min_write_speed_mb ob of
        (evs, ok) \<Rightarrow>
          (case disk_pods min_write_speed_mb obs (all_ok \<and> ok) of
             (evs', r) \<Rightarrow> (evs @ evs', r)))"

definition disk_round ::
  "pyfloat \<Rightarrow> (string \<times> proc_result \<times> proc_result) list \<Rightarrow> disk_event list \<times> bool" where
  "disk_round min_write_speed_mb pods =
     (if pods = [] then ([], False) else disk_pods min_write_speed_mb pods True)"

fun disk_loop ::
  "pyfloat \<Rightarrow> (string \<times> proc_result \<times> proc_result) list list \<Rightarrow> disk_event list \<times> bool" where
  "disk_loop min_write_speed_mb [] = ([], False)"
| "disk_loop min_write_speed_mb (r # rs) =
     (case disk_round min_write_speed_mb r of
        (evs, ok) \<Rightarrow>
          if ok then (evs, True)
          else (case disk_loop min_write_speed_mb rs of (evs', b) \<Rightarrow> (evs @ evs', b)))"

definition check_disk_io_performance ::
  "pod list list \<Rightarrow> (string \<times> proc_result \<times> proc_result) list list \<Rightarrow> pyfloat
     \<Rightarrow> disk_event list \<times> bool" where
  "check_disk_io_performance gate_polls rounds min_write_speed_mb =
     disk_loop min_write_speed_mb rounds"

section \<open>Model transport: reassembling a streamed response\<close>

text \<open>
  A string-valued field of a JSON object: absent, \<open>null\<close>, or a string. A decoded chunk
  is the list under \<open>choices\<close> (empty when the key is absent or the list is empty), each
  choice with or without its \<open>delta\<close>. A tool-call chunk has or lacks its \<open>index\<close> and its
  \<open>function\<close> object. Values of other JSON types are outside the model.
\<close>

datatype jstr = Missing | Null | Str string

record func_chunk =
  fname :: jstr
  farguments :: jstr

record tool_call_chunk =
  tc_index :: "int option"
  tc_id :: jstr
  tc_type :: jstr
  tc_function :: "func_chunk option"

record delta =
  d_content :: jstr
  d_tool_calls :: "tool_call_chunk list"

type_synonym chunk = "delta option list"

text \<open>The assistant message that is returned.\<close>

record tool_call =
  call_id :: "string option"
  call_type :: "string option"
  name :: string
  arguments :: string

record message =
  role :: string
  content :: "string option"
  tool_calls :: "tool_call list"

text \<open>\<open>tool_call_chunk.get("id")\<close> and \<open>tool_call_chunk.get("type", "function")\<close>\<close>

fun get_id :: "jstr \<Rightarrow> string option" where
  "get_id (Str s) = Some s"
| "get_id _ = None"

fun get_type :: "jstr \<Rightarrow> string option" where
  "get_type Missing = Some ''function''"
| "get_type Null = None"
| "get_type (Str s) = Some s"

text \<open>A fragment counts when the key is present and its value is a non-empty string.\<close>

fun fragment :: "jstr \<Rightarrow> string option" where
  "fragment (Str s) = (if s = [] then None else Some s)"
| "fragment _ = None"

definition new_call :: "tool_call_chunk \<Rightarrow> tool_call" where
  "new_call tc = \<lparr>call_id = get_id (tc_id tc), call_type = get_type (tc_type tc), name = [], arguments = []\<rparr>"

definition apply_function :: "func_chunk option \<Rightarrow> tool_call \<Rightarrow> tool_call" where
  "apply_function f c =
     (case f of
        None \<Rightarrow> c
      | Some fc \<Rightarrow>
          let c1 = (case fragment (fname fc) of None \<Rightarrow> c | Some n \<Rightarrow> c\<lparr>name := n\<rparr>)
          in (case fragment (farguments fc) of
                None \<Rightarrow> c1
              | Some a \<Rightarrow> c1\<lparr>arguments := arguments c1 @ a\<rparr>))"

text \<open>
  One tool-call chunk against the dictionary \<open>current_tool_calls\<close>, kept as an association
  list in insertion order. A chunk without \<open>index\<close> raises \<open>KeyError\<close>.
\<close>

definition tool_call_step ::
  "(int \<times> tool_call) list \<Rightarrow> tool_call_chunk \<Rightarrow> py_error + (int \<times> tool_call) list" where
  "tool_call_step calls tc =
     (case tc_index tc of
        None \<Rightarrow> Inl KeyError
      | Some i \<Rightarrow>
          let cur = (case map_of calls i of None \<Rightarrow> new_call tc | Some c \<Rightarrow> c)
          in Inr (AList.update i (apply_function (tc_function tc) cur) calls))"

fun tool_call_steps ::
  "(int \<times> tool_call) list \<Rightarrow> tool_call_chunk list \<Rightarrow> py_error + (int \<times> tool_call) list" where
  "tool_call_steps calls [] = Inr calls"
| "tool_call_steps calls (tc # tcs) =
     (case tool_call_step calls tc of Inl e \<Rightarrow> Inl e | Inr calls' \<Rightarrow> tool_call_steps calls' tcs)"

text \<open>One decoded chunk against the accumulated content and the dictionary.\<close>

definition chunk_step ::
  "string \<times> (int \<times> tool_call) list \<Rightarrow> chunk \<Rightarrow> py_error + string \<times> (int \<times> tool_call) list" where
  "chunk_step st ch =
     (case ch of
        [] \<Rightarrow> Inr st
      | None # _ \<Rightarrow> Inl KeyError
      | Some d # _ \<Rightarrow>
          let text = (case d_content d of Str c \<Rightarrow> fst st @ c | _ \<Rightarrow> fst st)
          in (case tool_call_steps (snd st) (d_tool_calls d) of
                Inl e \<Rightarrow> Inl e
              | Inr calls \<Rightarrow> Inr (text, calls)))"

text \<open>
  The loop over the lines of the response. \<open>json_loads\<close> is the JSON decoder, \<open>None\<close> for
  \<open>JSONDecodeError\<close>. The loop ends at the first \<open>[DONE]\<close>.
\<close>

fun stream_loop ::
  "(string \<Rightarrow> chunk option) \<Rightarrow> string list \<Rightarrow> string \<times> (int \<times> tool_call) list
     \<Rightarrow> py_error + string \<times> (int \<times> tool_call) list" where
  "stream_loop json_loads [] st = Inr st"
| "stream_loop json_loads (line # rest) st =
     (if line = [] then stream_loop json_loads rest st
      else if startswith line ''data: '' then
        (let data_str = drop 6 line in
         if strip data_str = ''[DONE]'' then Inr st
         else
           (case json_loads data_str of
              None \<Rightarrow> stream_loop json_loads rest st
            | Some ch \<Rightarrow>
                (case chunk_step st ch of
                   Inl e \<Rightarrow> Inl e
                 | Inr st' \<Rightarrow> stream_loop json_loads rest st')))
      else stream_loop json_loads rest st)"

definition finish_message :: "string \<times> (int \<times> tool_call) list \<Rightarrow> message" where
  "finish_message st =
     (if snd st \<noteq> [] then
        \<lparr>role = ''assistant'',
         content = (if fst st = [] then None else Some (fst st)),
         tool_calls = map (\<lambda>i. the (map_of (snd st) i)) (sort (map fst (snd st)))\<rparr>
      else \<lparr>role = ''assistant'', content = Some (fst st), tool_calls = []\<rparr>)"

definition parse_streamed_response :: "(string \<Rightarrow> chunk option) \<Rightarrow> string list \<Rightarrow> py_error + message" where
  "parse_streamed_response json_loads lines =
     (case stream_loop json_loads lines ([], []) of
        Inl e \<Rightarrow> Inl e
      | Inr st \<Rightarrow> Inr (finish_message st))"

section \<open>Action executor\<close>

text \<open>\<open>str(n)\<close> for an integer, as the f-strings of the source print it.\<close>

fun str_nat :: "nat \<Rightarrow> string" where
  "str_nat n = (if n < 10 then [char_of (48 + n)] else str_nat (n div 10) @ [char_of (48 + n mod 10)])"

declare str_nat.simps [simp del]

definition str_int :: "int \<Rightarrow> string" where
  "str_int i = (if i < 0 then CHR ''-'' # str_nat (nat (- i)) else str_nat (nat i))"

definition str_bool :: "bool \<Rightarrow> string" where
  "str_bool b = (if b then ''True'' else ''False'')"

text \<open>
  What can happen when the playbook is run: writing the file fails; the executable is
  not found; the process exits with a return code, standard output and standard error;
  the process exceeds the timeout and its process group is killed, leaving partial
  output; any other exception.
\<close>

datatype exec_outcome =
  WriteFails | NotFound | Exits int string string | TimesOut string string | Unexpected

text \<open>
  \<open>execute_playbook_and_get_response\<close>, with the default timeout of 300 seconds. Only a
  failed write raises; every other failure is reported as \<open>(False, message)\<close>. The
  messages are those of the source without their leading pictograph and quotation marks.
\<close>

definition execute_playbook_and_get_response :: "exec_outcome \<Rightarrow> py_error + bool \<times> string" where
  "execute_playbook_and_get_response oc =
     (case oc of
        WriteFails \<Rightarrow> Inl RuntimeError
      | Exits returncode out err \<Rightarrow>
          if returncode = 0 then Inr (True, strip out)
          else Inr (False,
                 ''Playbook execution failed (exit code '' @ str_int returncode @ '')'' @ [CHR 0x0A]
                 @ ''STDOUT:'' @ [CHR 0x0A] @ strip out @ [CHR 0x0A, CHR 0x0A]
                 @ ''STDERR:'' @ [CHR 0x0A] @ strip err)
      | TimesOut out err \<Rightarrow>
          Inr (False,
            ''Ansible playbook timed out after 300s.'' @ [CHR 0x0A]
            @ ''Partial STDOUT:'' @ [CHR 0x0A] @ strip out @ [CHR 0x0A, CHR 0x0A]
            @ ''Partial STDERR:'' @ [CHR 0x0A] @ strip err)
      | NotFound \<Rightarrow>
          Inr (False, ''ansible-playbook command not found. Please ensure Ansible is installed and available in PATH.'')
      | Unexpected \<Rightarrow> Inr (False, ''Unexpected error during playbook execution''))"

section \<open>Remediation agent loop\<close>

definition WAIT_REME_TIME :: nat where
  "WAIT_REME_TIME = 10"

definition MAX_RETRY_TIME :: nat where
  "MAX_RETRY_TIME = 1"

text \<open>A message of the transcript, and a tool call as the model transport returns it.\<close>

record prompt =
  p_role :: string
  p_content :: string

record tool =
  t_name :: string
  t_arguments :: string

datatype chat_outcome = ChatRaises py_error | ChatReturns "tool list"

text \<open>
  The world the loop runs in. Every collaborator is an oracle, asked by the number of
  calls already made to it: the model transport, the probe executor (\<open>None\<close> when it
  raises), the action runner, and \<open>verify_status\<close>, whose module is not among the sources
  and which is taken as a parameter that returns a boolean. \<open>json_code\<close> and \<open>json_cmds\<close>
  stand for \<open>json.loads(s)["code"]\<close> and \<open>json.loads(s)["cmds"]\<close>: \<open>None\<close> when the
  decoding or the lookup raises. \<open>inventory\<close> is the content of \<open>inventory.ini\<close>, \<open>None\<close>
  when it cannot be read.
\<close>

record world =
  inventory :: "string option"
  chat_api :: "nat \<Rightarrow> chat_outcome"
  json_code :: "string \<Rightarrow> string option"
  json_cmds :: "string \<Rightarrow> string option"
  get_probe_response :: "nat \<Rightarrow> string \<Rightarrow> string option"
  execute :: "nat \<Rightarrow> exec_outcome"
  verify_status :: "nat \<Rightarrow> bool"

text \<open>What the loop does to the outside, in order.\<close>

datatype event = EvChat | EvProbe string | EvExecute string | EvSleep nat | EvVerify

fun is_chat :: "event \<Rightarrow> bool" where
  "is_chat EvChat = True"
| "is_chat _ = False"

fun is_probe :: "event \<Rightarrow> bool" where
  "is_probe (EvProbe c) = True"
| "is_probe _ = False"

fun is_execute :: "event \<Rightarrow> bool" where
  "is_execute (EvExecute c) = True"
| "is_execute _ = False"

fun is_verify :: "event \<Rightarrow> bool" where
  "is_verify EvVerify = True"
| "is_verify _ = False"

definition count_ev :: "(event \<Rightarrow> bool) \<Rightarrow> event list \<Rightarrow> nat" where
  "count_ev P tr = length (filter P tr)"

record rstate =
  prompts :: "prompt list"
  trace :: "event list"

definition say :: "string \<Rightarrow> string \<Rightarrow> rstate \<Rightarrow> rstate" where
  "say r c s = s\<lparr>prompts := prompts s @ [\<lparr>p_role = r, p_content = c\<rparr>]\<rparr>"

definition emit :: "event \<Rightarrow> rstate \<Rightarrow> rstate" where
  "emit ev s = s\<lparr>trace := trace s @ [ev]\<rparr>"

text \<open>
  A call returns, raises, or is still running when the fuel of the model is used up: the
  loop \<open>while True\<close> of \<open>get_playbook_with_probing\<close> has no bound of its own.
\<close>

datatype 'a outcome = Returns 'a | Raises py_error | OutOfFuel

definition round_prompt :: string where
  "round_prompt = ''Please continue to generate executable Ansible playbook or get more information from the probe agent.''"

text \<open>The loop over the probe requests of one answer; a request that raises is skipped.\<close>

fun probe_tools :: "world \<Rightarrow> tool list \<Rightarrow> rstate \<Rightarrow> rstate" where
  "probe_tools w [] s = s"
| "probe_tools w (t # ts) s =
     (case json_cmds w (t_arguments t) of
        None \<Rightarrow> probe_tools w ts s
      | Some probe_commands \<Rightarrow>
          let s1 = emit (EvProbe probe_commands) s in
          (case get_probe_response w (count_ev is_probe (trace s)) probe_commands of
             None \<Rightarrow> probe_tools w ts s1
           | Some tool_result \<Rightarrow>
               probe_tools w ts (say ''user'' round_prompt (say ''assistant'' tool_result s1))))"

text \<open>\<open>get_playbook_with_probing\<close>: one unit of fuel per call of the model.\<close>

fun get_playbook_with_probing :: "nat \<Rightarrow> world \<Rightarrow> rstate \<Rightarrow> string outcome \<times> rstate" where
  "get_playbook_with_probing 0 w s = (OutOfFuel, s)"
| "get_playbook_with_probing (Suc fuel) w s =
     (let s1 = emit EvChat s in
      case chat_api w (count_ev is_chat (trace s)) of
        ChatRaises e \<Rightarrow> (Raises e, s1)
      | ChatReturns tools \<Rightarrow>
          (case tools of
             [] \<Rightarrow> (Returns [], s1)
           | t # ts \<Rightarrow>
               if t_name t = ''print_playbook'' then
                 (let s2 = say ''assistant'' (t_arguments t) s1 in
                  case json_code w (t_arguments t) of
                    Some code \<Rightarrow> (Returns code, s2)
                  | None \<Rightarrow> (Returns [], say ''assistant'' ''Error Code'' s2))
               else get_playbook_with_probing fuel w (probe_tools w tools s1)))"

text \<open>
  \<open>execute_and_verify\<close>: the playbook is executed; the settle delay and the verification
  are inside \<open>if status\<close>.
\<close>

definition execute_and_verify :: "world \<Rightarrow> string \<Rightarrow> rstate \<Rightarrow> (bool \<times> bool \<times> string) outcome \<times> rstate" where
  "execute_and_verify w playbook_code s =
     (let s1 = emit (EvExecute playbook_code) s in
      case execute_playbook_and_get_response (execute w (count_ev is_execute (trace s))) of
        Inl e \<Rightarrow> (Raises e, s1)
      | Inr (status, output) \<Rightarrow>
          if status then
            (let s2 = emit EvVerify (emit (EvSleep WAIT_REME_TIME) s1)
             in (Returns (status, verify_status w (count_ev is_verify (trace s)), output), s2))
          else (Returns (status, False, output), s1))"

text \<open>The two flags of an attempt that returned: executor status and verification result.\<close>

definition attempt_status :: "(bool \<times> bool \<times> string) outcome \<Rightarrow> (bool \<times> bool) option" where
  "attempt_status r = (case r of Returns (status, verified, output) \<Rightarrow> Some (status, verified) | _ \<Rightarrow> None)"

text \<open>What \<open>remediate_failure\<close> returns: \<open>(prompts, try_time)\<close>, or \<open>(False, -1)\<close>.\<close>

datatype remediation = Transcript "prompt list" nat | ErrorValue

definition retry_prompt :: "bool \<Rightarrow> bool \<Rightarrow> string" where
  "retry_prompt playbook_exec_status status =
     ''The failure of online service has not yet been remediated.'' @ [CHR 0x0A]
     @ ''You may use the probe agent to further inspect the system state and generate a new Ansible playbook to attempt remediation again.'' @ [CHR 0x0A]
     @ ''The previous playbook execution returned: '' @ str_bool playbook_exec_status
     @ '', output: '' @ str_bool status"

definition execution_response :: "string \<Rightarrow> string" where
  "execution_response output = ''playbook execution response: '' @ output"

text \<open>The retry loop, entered with \<open>try_time = 1\<close> after the first attempt.\<close>

function retry_loop ::
  "nat \<Rightarrow> world \<Rightarrow> nat \<Rightarrow> bool \<Rightarrow> bool \<Rightarrow> nat \<Rightarrow> rstate \<Rightarrow> remediation outcome \<times> rstate" where
  "retry_loop fuel w max_retry playbook_exec_status status try_time s =
     (if \<not> status \<and> try_time \<le> max_retry then
        (case get_playbook_with_probing fuel w (say ''user'' (retry_prompt playbook_exec_status status) s) of
           (Raises e, s2) \<Rightarrow> (Returns (Transcript (prompts s2) try_time), s2)
         | (OutOfFuel, s2) \<Rightarrow> (OutOfFuel, s2)
         | (Returns playbook_code, s2) \<Rightarrow>
             (case execute_and_verify w playbook_code s2 of
                (Raises e, s3) \<Rightarrow> (Raises e, s3)
              | (OutOfFuel, s3) \<Rightarrow> (OutOfFuel, s3)
              | (Returns (exec_status', status', output), s3) \<Rightarrow>
                  retry_loop fuel w max_retry exec_status' status' (try_time + 1)
                    (say ''assistant'' (execution_response output) s3)))
      else (Returns (Transcript (prompts s) try_time), s))"
  by pat_completeness auto
termination
  by (relation "measure (\<lambda>(fuel, w, max_retry, pes, st, try_time, s). Suc max_retry - try_time)") auto

declare retry_loop.simps [simp del]

definition root_prompt :: "string \<Rightarrow> string \<Rightarrow> string \<Rightarrow> string \<Rightarrow> string \<Rightarrow> string" where
  "root_prompt runtime_envs inventory_content namespace root_cause failure_category =
     ''You are an experienced SRE managing a microservice system.'' @ [CHR 0x0A]
     @ ''A failure has occurred, and your task is to generate a final executable Ansible playbook based on the given root cause, failure category, and the probed information.'' @ [CHR 0x0A]
     @ ''The system will automatically execute the playbook and verify whether the failure has been successfully resolved.'' @ [CHR 0x0A]
     @ ''[Attention] Please ensure that online services remain uninterrupted; restarting services should not be considered a primary strategy.'' @ [CHR 0x0A]
     @ runtime_envs @ [CHR 0x0A]
     @ ''The content of inventory.ini is '' @ inventory_content @ [CHR 0x0A]
     @ ''The current namespace is: '' @ namespace @ '', failure root cause service is: '' @ root_cause
     @ '', and the failure category is: '' @ failure_category @ ''.''"

text \<open>
  \<open>remediate_failure\<close> of the ThinkRemed coordinator, for any retry limit. An exception
  of the first drafting is caught and answered with the error value; an exception of a
  later drafting ends the retry loop; an exception of the executor is not caught.
\<close>

definition remediate_failure_with ::
  "nat \<Rightarrow> nat \<Rightarrow> world \<Rightarrow> string \<Rightarrow> string \<Rightarrow> string \<Rightarrow> string \<Rightarrow> remediation outcome \<times> rstate" where
  "remediate_failure_with max_retry fuel w runtime_envs namespace root_cause failure_category =
     (case inventory w of
        None \<Rightarrow> (Raises FileNotFoundError, \<lparr>prompts = [], trace = []\<rparr>)
      | Some inventory_content \<Rightarrow>
          (let s0 = \<lparr>prompts = [\<lparr>p_role = ''system'',
                         p_content = root_prompt runtime_envs inventory_content namespace root_cause failure_category\<rparr>],
                    trace = []\<rparr>
           in case get_playbook_with_probing fuel w s0 of
                (Raises e, s1) \<Rightarrow> (Returns ErrorValue, s1)
              | (OutOfFuel, s1) \<Rightarrow> (OutOfFuel, s1)
              | (Returns playbook_code, s1) \<Rightarrow>
                  (case execute_and_verify w playbook_code s1 of
                     (Raises e, s2) \<Rightarrow> (Raises e, s2)
                   | (OutOfFuel, s2) \<Rightarrow> (OutOfFuel, s2)
                   | (Returns (playbook_exec_status, status, output), s2) \<Rightarrow>
                       retry_loop fuel w max_retry playbook_exec_status status 1
                         (say ''assistant'' (execution_response output) s2))))"

definition remediate_failure ::
  "nat \<Rightarrow> world \<Rightarrow> string \<Rightarrow> string \<Rightarrow> string \<Rightarrow> string \<Rightarrow> remediation outcome \<times> rstate" where
  "remediate_failure = remediate_failure_with MAX_RETRY_TIME"

section \<open>Failure injection and environment deployment\<close>





section \<open>Experiment orchestrator\<close>

text \<open>The command-line arguments that steer the campaign.\<close>

record args =
  experiments :: nat
  namespace :: string
  enable_strict_restart :: bool
  failure_list :: "string list"
  manifest_path :: string


datatype oevent =
  Choose string string | CheckBaseline | Deploy | Inject | Clock | CheckInjected | Wait
  | Remediate | FinalCheck | Save bool nat | StopInjection string | Restore string | Settle

record ostate =
  current_experiment_no :: nat
  success_count :: nat
  total_remediation_tries :: nat
  failure_injection_failures :: nat
  olog :: "oevent list"

definition logged :: "oevent \<Rightarrow> ostate \<Rightarrow> ostate" where
  "logged ev st = st\<lparr>olog := olog st @ [ev]\<rparr>"

definition now :: "ostate \<Rightarrow> nat" where
  "now st = length (olog st)"

text \<open>How one pass through the body of the campaign loop ends.\<close>

datatype step = Next ostate | Exited int ostate | Crashed py_error ostate | Hangs ostate









text \<open>The state a pass ends in, and the events it added to the log.\<close>

fun step_state :: "step \<Rightarrow> ostate" where
  "step_state (Next st) = st"
| "step_state (Exited c st) = st"
| "step_state (Crashed e st) = st"
| "step_state (Hangs st) = st"

definition events_since :: "ostate \<Rightarrow> step \<Rightarrow> oevent list" where
  "events_since st r = drop (length (olog st)) (olog (step_state r))"






section \<open>Reassembly, as the specification words it\<close>

text \<open>
  The second description of the reassembled message, to compare with the loop: first the
  events of the stream, then what the message is said to hold for them.

  The decoded chunks that the loop reaches, up to the first \<open>[DONE]\<close>, and the delta
  events among them (a chunk without choices carries none).
\<close>

fun stream_chunks :: "(string \<Rightarrow> chunk option) \<Rightarrow> string list \<Rightarrow> chunk list" where
  "stream_chunks json_loads [] = []"
| "stream_chunks json_loads (line # rest) =
     (if line = [] then stream_chunks json_loads rest
      else if startswith line ''data: '' then
        (if strip (drop 6 line) = ''[DONE]'' then []
         else (case json_loads (drop 6 line) of
                 None \<Rightarrow> stream_chunks json_loads rest
               | Some ch \<Rightarrow> ch # stream_chunks json_loads rest))
      else stream_chunks json_loads rest)"

fun first_delta :: "chunk \<Rightarrow> delta option" where
  "first_delta (Some d # _) = Some d"
| "first_delta _ = None"

definition stream_events :: "(string \<Rightarrow> chunk option) \<Rightarrow> string list \<Rightarrow> delta list" where
  "stream_events json_loads lines = List.map_filter first_delta (stream_chunks json_loads lines)"

text \<open>The stream is well formed when every chunk has its delta and every tool-call chunk its index.\<close>

fun well_formed_chunk :: "chunk \<Rightarrow> bool" where
  "well_formed_chunk [] = True"
| "well_formed_chunk (None # _) = False"
| "well_formed_chunk (Some d # _) = list_all (\<lambda>tc. tc_index tc \<noteq> None) (d_tool_calls d)"

text \<open>The loop seen as a fold over the decoded chunks.\<close>

fun chunk_steps ::
  "string \<times> (int \<times> tool_call) list \<Rightarrow> chunk list \<Rightarrow> py_error + string \<times> (int \<times> tool_call) list" where
  "chunk_steps st [] = Inr st"
| "chunk_steps st (ch # chs) =
     (case chunk_step st ch of Inl e \<Rightarrow> Inl e | Inr st' \<Rightarrow> chunk_steps st' chs)"

text \<open>
  The tool-call chunks of the events in stream order; those carried for one index; the
  argument and name fragments among them; the content fragments; the indices in
  ascending order.
\<close>

definition call_fragments :: "delta list \<Rightarrow> tool_call_chunk list" where
  "call_fragments ds = concat (map d_tool_calls ds)"

definition fragments_at :: "int \<Rightarrow> tool_call_chunk list \<Rightarrow> tool_call_chunk list" where
  "fragments_at i tcs = filter (\<lambda>tc. tc_index tc = Some i) tcs"

definition argument_fragments :: "tool_call_chunk list \<Rightarrow> string list" where
  "argument_fragments tcs =
     List.map_filter (\<lambda>tc. case tc_function tc of None \<Rightarrow> None | Some fc \<Rightarrow> fragment (farguments fc)) tcs"

definition name_fragments :: "tool_call_chunk list \<Rightarrow> string list" where
  "name_fragments tcs =
     List.map_filter (\<lambda>tc. case tc_function tc of None \<Rightarrow> None | Some fc \<Rightarrow> fragment (fname fc)) tcs"

definition content_fragments :: "delta list \<Rightarrow> string list" where
  "content_fragments ds = List.map_filter (\<lambda>d. case d_content d of Str c \<Rightarrow> Some c | _ \<Rightarrow> None) ds"

definition streamed_indices :: "tool_call_chunk list \<Rightarrow> int list" where
  "streamed_indices tcs = sort (remdups (List.map_filter tc_index tcs))"

text \<open>
  The tool call for an index: identifier and type from its first chunk, the arguments
  the concatenation of its argument fragments, and the name chosen from its name
  fragments by \<open>pick\<close> (the empty string when there is none). The claim picks the first
  name fragment; the loop picks the last.
\<close>

definition reassembled_call :: "(string list \<Rightarrow> string) \<Rightarrow> tool_call_chunk list \<Rightarrow> int \<Rightarrow> tool_call" where
  "reassembled_call pick tcs i =
     (let fr = fragments_at i tcs in
      \<lparr>call_id = get_id (tc_id (hd fr)),
       call_type = get_type (tc_type (hd fr)),
       name = (if name_fragments fr = [] then [] else pick (name_fragments fr)),
       arguments = concat (argument_fragments fr)\<rparr>)"

definition reassembled_message :: "(string list \<Rightarrow> string) \<Rightarrow> delta list \<Rightarrow> message" where
  "reassembled_message pick ds =
     (let tcs = call_fragments ds; text = concat (content_fragments ds) in
      \<lparr>role = ''assistant'',
       content = (if tcs \<noteq> [] \<and> text = [] then None else Some text),
       tool_calls = map (reassembled_call pick tcs) (streamed_indices tcs)\<rparr>)"

text \<open>All the fragments of one index applied to its entry, in stream order.\<close>

definition apply_fragments :: "tool_call_chunk list \<Rightarrow> tool_call \<Rightarrow> tool_call" where
  "apply_fragments fr c = fold (\<lambda>tc. apply_function (tc_function tc)) fr c"

section \<open>Concrete inputs: telemetry\<close>

text \<open>The inputs at which the theorems on the recovery oracle are evaluated.\<close>

definition pod_web :: pod where
  "pod_web = \<lparr>pname = ''web-1'', deletion_timestamp = None, phase = ''Running'', conditions = None,
     containers = [\<lparr>cname = ''web'', limits = Some [(''cpu'', ''100m''), (''memory'', ''128Mi'')]\<rparr>]\<rparr>"

definition top_header :: string where
  "top_header = ''POD NAME CPU(cores) MEMORY(bytes)''"

definition top_fractional_millicores :: string where
  "top_fractional_millicores = top_header @ [CHR 0x0A] @ ''web-1 web 0.5m 10Mi''"

definition top_fractional_bytes :: string where
  "top_fractional_bytes = top_header @ [CHR 0x0A] @ ''web-1 web 5m 1.5''"

section \<open>Concrete inputs: remediation worlds\<close>

text \<open>
  A world in which the model answers every request with a playbook at once and the
  action runner exits with code 2; one in which the runner exceeds its timeout; one in
  which it succeeds and every verification fails.
\<close>

definition world_exec_fails :: world where
  "world_exec_fails =
     \<lparr>inventory = Some ''[k3s]'',
      chat_api = (\<lambda>k. ChatReturns [\<lparr>t_name = ''print_playbook'', t_arguments = ''{}''\<rparr>]),
      json_code = (\<lambda>s. Some ''- hosts: all''),
      json_cmds = (\<lambda>s. None),
      get_probe_response = (\<lambda>k c. None),
      execute = (\<lambda>k. Exits 2 [] []),
      verify_status = (\<lambda>k. True)\<rparr>"

definition world_exec_times_out :: world where
  "world_exec_times_out = world_exec_fails\<lparr>execute := (\<lambda>k. TimesOut [] [])\<rparr>"

definition world_verify_fails :: world where
  "world_verify_fails = world_exec_fails\<lparr>execute := (\<lambda>k. Exits 0 [] []), verify_status := (\<lambda>k. False)\<rparr>"

definition fresh :: rstate where
  "fresh = \<lparr>prompts = [], trace = []\<rparr>"

section \<open>Concrete inputs: campaigns\<close>









section \<open>Concrete inputs: disk probes\<close>

text \<open>
  The output of the timed write in a pod: the report of \<open>dd\<close> and, on the last line, the
  duration in milliseconds. Ten megabytes in 2000 ms are 5 MB/s, in 500 ms 20 MB/s.
\<close>

definition dd_output :: "string \<Rightarrow> string" where
  "dd_output ms = ''10+0 records in'' @ [CHR 0x0A] @ ''10+0 records out'' @ [CHR 0x0A] @ ms @ [CHR 0x0A]"

definition slow_pod :: "string \<times> proc_result \<times> proc_result" where
  "slow_pod = (''nacosdb-mysql-0'', Completed 0 (dd_output ''2000'') [], Completed 0 [] [])"

definition fast_pod :: "string \<times> proc_result \<times> proc_result" where
  "fast_pod = (''nacosdb-mysql-0'', Completed 0 (dd_output ''500'') [], Completed 0 [] [])"

definition hung_pod :: "string \<times> proc_result \<times> proc_result" where
  "hung_pod = (''nacosdb-mysql-0'', ProcRaises TimeoutExpired, Completed 0 [] [])"

section \<open>Concrete inputs: three containers\<close>




section \<open>Concrete inputs: ping outputs\<close>

text \<open>
  The summary of a healthy ping; an output without any summary; and a summary whose
  figures read \<open>nan\<close>.
\<close>

definition ping_healthy :: string where
  "ping_healthy = ''--- 8.8.8.8 ping statistics ---'' @ [CHR 0x0A]
     @ ''3 packets transmitted, 3 packets received, 0% packet loss'' @ [CHR 0x0A]
     @ ''round-trip min/avg/max = 10.1/12.5/15.0 ms''"

definition ping_garbage :: string where
  "ping_garbage = ''Segmentation fault (core dumped) 0x7f3a#@!''"

definition ping_nan :: string where
  "ping_nan = ''--- 8.8.8.8 ping statistics ---'' @ [CHR 0x0A]
     @ ''3 packets transmitted, 3 packets received, nan% packet loss'' @ [CHR 0x0A]
     @ ''round-trip min/avg/max = nan/nan/nan ms''"

section \<open>Concrete inputs: a stream\<close>

text \<open>
  A stream of two chunks for the tool call of index 0: the first names \<open>probe_system\<close>
  and starts the arguments, the second names \<open>print_playbook\<close> and ends them. The decoder
  is given by its value on the two payloads.
\<close>

definition chunk_a :: chunk where
  "chunk_a = [Some \<lparr>d_content = Null,
      d_tool_calls = [\<lparr>tc_index = Some 0, tc_id = Str ''call_1'', tc_type = Missing,
         tc_function = Some \<lparr>fname = Str ''probe_system'', farguments = Str ''{code: ''\<rparr>\<rparr>]\<rparr>]"

definition chunk_b :: chunk where
  "chunk_b = [Some \<lparr>d_content = Missing,
      d_tool_calls = [\<lparr>tc_index = Some 0, tc_id = Missing, tc_type = Missing,
         tc_function = Some \<lparr>fname = Str ''print_playbook'', farguments = Str ''- hosts: all}''\<rparr>\<rparr>]\<rparr>]"

definition decoder :: "string \<Rightarrow> chunk option" where
  "decoder s = (if s = ''A'' then Some chunk_a else if s = ''B'' then Some chunk_b else None)"

definition two_names :: "string list" where
  "two_names = [''data: A'', [], ''data: B'', '': keep-alive'', ''data: [DONE]'', ''data: A'']"

section \<open>Evaluating the numeric model\<close>

text \<open>
  Rules that let the simplifier run the parsers and the rounding on literals: the bit
  length of a numeral, and the unfolding of the definitions.
\<close>

lemma bit_length_0 [simp]: "bit_length 0 = 0"
  by (simp add: bit_length.simps)

lemma bit_length_1 [simp]: "bit_length 1 = 1"
  by (simp add: bit_length.simps)

lemma bit_length_numeral [simp]: "bit_length (numeral k) = 1 + bit_length (numeral k div 2)"
  by (subst bit_length.simps) simp

lemma bit_length_neg_numeral [simp]: "bit_length (- numeral k) = 0"
  by (simp add: bit_length.simps)

lemmas string_eval = endswith_def startswith_def drop_last_def strip_def is_space_def is_digit_def
  digit_val_def lower_def lower_char_def take_sign_def digitpart_def split_ws_def

lemmas float_eval = py_float_def py_int_def parse_number_def parse_exponent_def pow10_def pow2_def
  round64_def round_half_even_def floor_log2_def float_of_int_def trunc_def int_truediv_def Let_def

lemmas parser_eval = parse_cpu_to_millicores_def parse_memory_to_bytes_def scaled_def string_eval float_eval

section \<open>The unit parsers on the documented inputs\<close>

lemma cpu_50m: "parse_cpu_to_millicores ''50m'' = Inr 50"
  by (simp add: parser_eval)

lemma cpu_0_1: "parse_cpu_to_millicores ''0.1'' = Inr 100"
  by (simp add: parser_eval)

lemma cpu_2: "parse_cpu_to_millicores ''2'' = Inr 2000"
  by (simp add: parser_eval)

lemma mem_120Mi: "parse_memory_to_bytes ''120Mi'' = Inr 125829120"
  by (simp add: parser_eval)

lemma mem_1_5Gi: "parse_memory_to_bytes ''1.5Gi'' = Inr 1610612736"
  by (simp add: parser_eval)

lemma mem_500K: "parse_memory_to_bytes ''500K'' = Inr 500000"
  by (simp add: parser_eval)

lemma mem_2G: "parse_memory_to_bytes ''2G'' = Inr 2000000000"
  by (simp add: parser_eval)

lemma mem_binary_suffixes:
  "parse_memory_to_bytes ''1Ki'' = Inr 1024 \<and> parse_memory_to_bytes ''1Mi'' = Inr (1024 ^ 2)
   \<and> parse_memory_to_bytes ''1Gi'' = Inr (1024 ^ 3) \<and> parse_memory_to_bytes ''1Ti'' = Inr (1024 ^ 4)
   \<and> parse_memory_to_bytes ''1Pi'' = Inr (1024 ^ 5) \<and> parse_memory_to_bytes ''1Ei'' = Inr (1024 ^ 6)"
  by (simp add: parser_eval)

lemma mem_decimal_suffixes:
  "parse_memory_to_bytes ''1K'' = Inr 1000 \<and> parse_memory_to_bytes ''1M'' = Inr (1000 ^ 2)
   \<and> parse_memory_to_bytes ''1G'' = Inr (1000 ^ 3) \<and> parse_memory_to_bytes ''1T'' = Inr (1000 ^ 4)"
  by (simp add: parser_eval)

text \<open>
  C5. The unit parsers return exactly the documented values: 50, 100 and 2000 millicores
  for \<open>50m\<close>, \<open>0.1\<close> and \<open>2\<close>; 125829120, 1610612736, 500000 and 2000000000 bytes for
  \<open>120Mi\<close>, \<open>1.5Gi\<close>, \<open>500K\<close> and \<open>2G\<close>; one unit of each binary suffix is a power of 1024
  and one unit of each decimal suffix a power of 1000.
\<close>

theorem unit_parsers_exact_values:
  "parse_cpu_to_millicores ''50m'' = Inr 50
   \<and> parse_cpu_to_millicores ''0.1'' = Inr 100
   \<and> parse_cpu_to_millicores ''2'' = Inr 2000
   \<and> parse_memory_to_bytes ''120Mi'' = Inr 125829120
   \<and> parse_memory_to_bytes ''1.5Gi'' = Inr 1610612736
   \<and> parse_memory_to_bytes ''500K'' = Inr 500000
   \<and> parse_memory_to_bytes ''2G'' = Inr 2000000000
   \<and> (parse_memory_to_bytes ''1Ki'' = Inr 1024 \<and> parse_memory_to_bytes ''1Mi'' = Inr (1024 ^ 2)
      \<and> parse_memory_to_bytes ''1Gi'' = Inr (1024 ^ 3) \<and> parse_memory_to_bytes ''1Ti'' = Inr (1024 ^ 4)
      \<and> parse_memory_to_bytes ''1Pi'' = Inr (1024 ^ 5) \<and> parse_memory_to_bytes ''1Ei'' = Inr (1024 ^ 6))
   \<and> (parse_memory_to_bytes ''1K'' = Inr 1000 \<and> parse_memory_to_bytes ''1M'' = Inr (1000 ^ 2)
      \<and> parse_memory_to_bytes ''1G'' = Inr (1000 ^ 3) \<and> parse_memory_to_bytes ''1T'' = Inr (1000 ^ 4))"
  using cpu_50m cpu_0_1 cpu_2 mem_120Mi mem_1_5Gi mem_500K mem_2G
    mem_binary_suffixes mem_decimal_suffixes
  by blast

section \<open>Inputs on which the unit parsers raise\<close>

lemmas oracle_eval = cpu_round_def cpu_round_try_def cpu_line_def get_container_cpu_limit_millicores_def
  has_limits_def limit_of_def get_container_memory_usage_bytes_def get_container_memory_limit_bytes_def

lemma cpu_fractional_millicores: "parse_cpu_to_millicores ''0.5m'' = Inl ValueError"
  by (simp add: parser_eval)

lemma mem_fractional_bytes: "parse_memory_to_bytes ''1.5'' = Inl ValueError"
  by (simp add: parser_eval)

lemma cpu_round_try_raises:
  "cpu_round_try [pod_web] (Fin (1 / 2)) (Completed 0 top_fractional_millicores []) = Inl ValueError"
  by (simp add: pod_web_def top_fractional_millicores_def top_header_def oracle_eval parser_eval)

lemma cpu_round_absorbs:
  "cpu_round [pod_web] (Fin (1 / 2)) (Completed 0 top_fractional_millicores []) = False"
  by (simp add: cpu_round_def cpu_round_try_raises)

lemma usage_absorbs:
  "get_container_memory_usage_bytes (Completed 0 top_fractional_bytes []) ''web'' = None"
  by (simp add: top_fractional_bytes_def top_header_def oracle_eval parser_eval)

text \<open>
  C10. The unit parsers are not total: \<open>parse_cpu_to_millicores\<close> raises \<open>ValueError\<close> on
  the fractional millicore string \<open>0.5m\<close>, and \<open>parse_memory_to_bytes\<close> raises \<open>ValueError\<close>
  on the suffix-less fractional string \<open>1.5\<close>. A caller is saved only by the handlers
  around it: the CPU round whose telemetry carries \<open>0.5m\<close> raises inside its \<open>try\<close> block
  and is counted as a failed round, and the memory usage reader answers \<open>None\<close> on \<open>1.5\<close>.
\<close>

theorem unit_parsers_raise:
  "parse_cpu_to_millicores ''0.5m'' = Inl ValueError
   \<and> parse_memory_to_bytes ''1.5'' = Inl ValueError
   \<and> cpu_round_try [pod_web] (Fin (1 / 2)) (Completed 0 top_fractional_millicores []) = Inl ValueError
   \<and> cpu_round [pod_web] (Fin (1 / 2)) (Completed 0 top_fractional_millicores []) = False
   \<and> get_container_memory_usage_bytes (Completed 0 top_fractional_bytes []) ''web'' = None"
  using cpu_fractional_millicores mem_fractional_bytes cpu_round_try_raises cpu_round_absorbs
    usage_absorbs
  by blast

section \<open>Remediation agent loop: what is executed and what is verified\<close>

lemma trace_emit [simp]: "trace (emit e s) = trace s @ [e]"
  by (simp add: emit_def)

lemma trace_say [simp]: "trace (say r c s) = trace s"
  by (simp add: say_def)

lemma prompts_emit [simp]: "prompts (emit e s) = prompts s"
  by (simp add: emit_def)

lemma count_ev_append [simp]: "count_ev P (xs @ ys) = count_ev P xs + count_ev P ys"
  by (simp add: count_ev_def)

lemma count_ev_Cons [simp]: "count_ev P (e # es) = (if P e then 1 else 0) + count_ev P es"
  by (simp add: count_ev_def)

lemma count_ev_Nil [simp]: "count_ev P [] = 0"
  by (simp add: count_ev_def)

lemma probe_tools_exec [simp]:
  "count_ev is_execute (trace (probe_tools w ts s)) = count_ev is_execute (trace s)"
  by (induction ts arbitrary: s) (auto simp: Let_def split: option.splits)

text \<open>Drafting, with all its probes, executes nothing.\<close>

lemma drafting_exec:
  "get_playbook_with_probing fuel w s = (r, s') \<Longrightarrow>
   count_ev is_execute (trace s') = count_ev is_execute (trace s)"
proof (induction fuel arbitrary: s)
  case 0
  then show ?case by simp
next
  case (Suc fuel)
  show ?case
  proof (cases "chat_api w (count_ev is_chat (trace s))")
    case (ChatRaises e)
    with Suc.prems show ?thesis by auto
  next
    case (ChatReturns tools)
    show ?thesis
    proof (cases tools)
      case Nil
      with ChatReturns Suc.prems show ?thesis by auto
    next
      case (Cons t ts)
      show ?thesis
      proof (cases "t_name t = ''print_playbook''")
        case True
        with Cons ChatReturns Suc.prems show ?thesis
          by (auto simp: Let_def split: option.splits)
      next
        case False
        with Cons ChatReturns Suc.prems
        have "get_playbook_with_probing fuel w (probe_tools w tools (emit EvChat s)) = (r, s')"
          by (simp add: Let_def)
        from Suc.IH [OF this] show ?thesis by simp
      qed
    qed
  qed
qed

lemma execute_and_verify_exec:
  "execute_and_verify w code s = (r, s') \<Longrightarrow>
   count_ev is_execute (trace s') = Suc (count_ev is_execute (trace s))"
  by (auto simp: execute_and_verify_def Let_def split: sum.splits prod.splits if_splits)

lemma execute_and_verify_events:
  "execute_and_verify w code s = (Returns (status, verified, out), s') \<Longrightarrow>
   trace s' = trace s @ [EvExecute code] @ (if status then [EvSleep WAIT_REME_TIME, EvVerify] else [])
   \<and> (\<not> status \<longrightarrow> \<not> verified)"
  by (auto simp: execute_and_verify_def Let_def split: sum.splits prod.splits if_splits)

text \<open>
  The invariant of the retry loop: \<open>try_time\<close> is the number of executions so far, and
  it never passes the retry limit plus one.
\<close>

lemma retry_loop_counts:
  "retry_loop fuel w m pes st t s = (r, s') \<Longrightarrow> count_ev is_execute (trace s) = t \<Longrightarrow> 1 \<le> t \<Longrightarrow>
   count_ev is_execute (trace s') \<le> max t (Suc m)
   \<and> (\<forall>ps n. r = Returns (Transcript ps n) \<longrightarrow> n = count_ev is_execute (trace s') \<and> ps = prompts s')"
proof (induction fuel w m pes st t s arbitrary: r s' rule: retry_loop.induct)
  case (1 fuel w m pes st t s)
  show ?case
  proof (cases "\<not> st \<and> t \<le> m")
    case False
    with "1.prems" show ?thesis by (subst (asm) retry_loop.simps) auto
  next
    case True
    obtain d s2 where d: "get_playbook_with_probing fuel w (say ''user'' (retry_prompt pes st) s) = (d, s2)"
      by (cases "get_playbook_with_probing fuel w (say ''user'' (retry_prompt pes st) s)") auto
    have e2: "count_ev is_execute (trace s2) = t"
      using drafting_exec [OF d] "1.prems" by simp
    show ?thesis
    proof (cases d)
      case (Raises e)
      with True d e2 "1.prems" show ?thesis by (subst (asm) retry_loop.simps) auto
    next
      case OutOfFuel
      with True d e2 "1.prems" show ?thesis by (subst (asm) retry_loop.simps) auto
    next
      case (Returns code)
      obtain x s3 where x: "execute_and_verify w code s2 = (x, s3)"
        by (cases "execute_and_verify w code s2") auto
      have e3: "count_ev is_execute (trace s3) = Suc t"
        using execute_and_verify_exec [OF x] e2 by simp
      show ?thesis
      proof (cases x)
        case (Raises e)
        with True d \<open>d = Returns code\<close> x e3 "1.prems" show ?thesis
          by (subst (asm) retry_loop.simps) auto
      next
        case OutOfFuel
        with True d \<open>d = Returns code\<close> x e3 "1.prems" show ?thesis
          by (subst (asm) retry_loop.simps) auto
      next
        case (Returns tr)
        obtain pes' st' out where tr: "tr = (pes', st', out)" by (cases tr) auto
        from True d \<open>d = Returns code\<close> x Returns tr "1.prems"
        have rec: "retry_loop fuel w m pes' st' (t + 1) (say ''assistant'' (execution_response out) s3) = (r, s')"
          by (subst (asm) retry_loop.simps) simp
        have "count_ev is_execute (trace s') \<le> max (t + 1) (Suc m)
          \<and> (\<forall>ps n. r = Returns (Transcript ps n) \<longrightarrow> n = count_ev is_execute (trace s') \<and> ps = prompts s')"
          using "1.IH" [OF True d [symmetric] \<open>d = Returns code\<close> x [symmetric] Returns tr [symmetric] refl rec] e3
          by simp
        with True show ?thesis by auto
      qed
    qed
  qed
qed

lemma remediate_counts:
  "remediate_failure_with m fuel w re ns rc fc = (r, s') \<Longrightarrow>
   count_ev is_execute (trace s') \<le> m + 1
   \<and> (\<forall>ps n. r = Returns (Transcript ps n) \<longrightarrow> n = count_ev is_execute (trace s') \<and> ps = prompts s')"
proof (cases "inventory w")
  case None
  assume "remediate_failure_with m fuel w re ns rc fc = (r, s')"
  with None show ?thesis by (auto simp: remediate_failure_with_def)
next
  case (Some inv)
  assume run: "remediate_failure_with m fuel w re ns rc fc = (r, s')"
  define s0 where "s0 = \<lparr>prompts = [\<lparr>p_role = ''system'', p_content = root_prompt re inv ns rc fc\<rparr>], trace = []\<rparr>"
  obtain d s1 where d: "get_playbook_with_probing fuel w s0 = (d, s1)"
    by (cases "get_playbook_with_probing fuel w s0") auto
  have e1: "count_ev is_execute (trace s1) = 0"
    using drafting_exec [OF d] by (simp add: s0_def)
  show ?thesis
  proof (cases d)
    case (Raises e)
    with run Some d e1 show ?thesis by (auto simp: remediate_failure_with_def s0_def Let_def)
  next
    case OutOfFuel
    with run Some d e1 show ?thesis by (auto simp: remediate_failure_with_def s0_def Let_def)
  next
    case (Returns code)
    obtain x s2 where x: "execute_and_verify w code s1 = (x, s2)"
      by (cases "execute_and_verify w code s1") auto
    have e2: "count_ev is_execute (trace s2) = 1"
      using execute_and_verify_exec [OF x] e1 by simp
    show ?thesis
    proof (cases x)
      case (Raises e)
      with run Some d \<open>d = Returns code\<close> x e2 show ?thesis
        by (auto simp: remediate_failure_with_def s0_def Let_def)
    next
      case OutOfFuel
      with run Some d \<open>d = Returns code\<close> x e2 show ?thesis
        by (auto simp: remediate_failure_with_def s0_def Let_def)
    next
      case (Returns tr)
      obtain pes st out where tr: "tr = (pes, st, out)" by (cases tr) auto
      from run Some d \<open>d = Returns code\<close> x Returns tr
      have "retry_loop fuel w m pes st 1 (say ''assistant'' (execution_response out) s2) = (r, s')"
        by (simp add: remediate_failure_with_def s0_def Let_def)
      from retry_loop_counts [OF this] e2 show ?thesis by simp
    qed
  qed
qed

text \<open>
  The loop returns when the model does: if every answer of the model is a playbook (or no
  tool call at all), the action runner never fails to write its file and every
  verification fails, then one unit of fuel is enough, and the run returns the transcript
  with an attempt count of the retry limit plus one.
\<close>

lemma drafting_returns:
  assumes "\<forall>k. \<exists>tools. chat_api w k = ChatReturns tools \<and> (tools = [] \<or> t_name (hd tools) = ''print_playbook'')"
  shows "\<exists>code s'. get_playbook_with_probing (Suc fuel) w s = (Returns code, s')"
proof -
  obtain tools where c: "chat_api w (count_ev is_chat (trace s)) = ChatReturns tools"
    and t: "tools = [] \<or> t_name (hd tools) = ''print_playbook''"
    using assms by blast
  then show ?thesis by (cases tools) (auto simp: Let_def split: option.splits)
qed

lemma attempt_returns_unverified:
  assumes "\<forall>k. execute w k \<noteq> WriteFails" and "\<forall>k. \<not> verify_status w k"
  shows "\<exists>pes out s'. execute_and_verify w code s = (Returns (pes, False, out), s')"
proof (cases "execute w (count_ev is_execute (trace s))")
  case WriteFails
  with assms show ?thesis by simp
qed (use assms in \<open>auto simp: execute_and_verify_def execute_playbook_and_get_response_def Let_def\<close>)

lemma retry_loop_returns:
  assumes "\<forall>k. \<exists>tools. chat_api w k = ChatReturns tools \<and> (tools = [] \<or> t_name (hd tools) = ''print_playbook'')"
    and "\<forall>k. execute w k \<noteq> WriteFails" and "\<forall>k. \<not> verify_status w k"
  shows "t \<le> Suc m \<Longrightarrow> \<exists>ps s'. retry_loop (Suc fuel) w m pes False t s = (Returns (Transcript ps (Suc m)), s')"
proof (induction "Suc m - t" arbitrary: t pes s)
  case 0
  then have "t = Suc m" by simp
  then show ?case by (subst retry_loop.simps) simp
next
  case (Suc d)
  then have le: "t \<le> m" by simp
  obtain code s2 where d: "get_playbook_with_probing (Suc fuel) w (say ''user'' (retry_prompt pes False) s) = (Returns code, s2)"
    using drafting_returns [OF assms(1)] by blast
  obtain pes' out s3 where x: "execute_and_verify w code s2 = (Returns (pes', False, out), s3)"
    using attempt_returns_unverified [OF assms(2,3)] by blast
  have "d = Suc m - (t + 1)" using Suc.hyps(2) by simp
  moreover have "t + 1 \<le> Suc m" using le by simp
  ultimately obtain ps s' where
    "retry_loop (Suc fuel) w m pes' False (t + 1) (say ''assistant'' (execution_response out) s3)
       = (Returns (Transcript ps (Suc m)), s')"
    using Suc.hyps(1) by blast
  with le d x show ?case by (subst retry_loop.simps) simp
qed

lemma remediate_returns:
  assumes "inventory w \<noteq> None"
    and "\<forall>k. \<exists>tools. chat_api w k = ChatReturns tools \<and> (tools = [] \<or> t_name (hd tools) = ''print_playbook'')"
    and "\<forall>k. execute w k \<noteq> WriteFails" and "\<forall>k. \<not> verify_status w k"
  shows "\<exists>ps. fst (remediate_failure_with m (Suc fuel) w re ns rc fc) = Returns (Transcript ps (m + 1))"
proof -
  obtain inv where inv: "inventory w = Some inv" using assms(1) by auto
  define s0 where "s0 = \<lparr>prompts = [\<lparr>p_role = ''system'', p_content = root_prompt re inv ns rc fc\<rparr>], trace = []\<rparr>"
  obtain code s1 where d: "get_playbook_with_probing (Suc fuel) w s0 = (Returns code, s1)"
    using drafting_returns [OF assms(2)] by blast
  obtain pes out s2 where x: "execute_and_verify w code s1 = (Returns (pes, False, out), s2)"
    using attempt_returns_unverified [OF assms(3,4)] by blast
  have "(1::nat) \<le> Suc m" by simp
  from retry_loop_returns [OF assms(2,3,4) this, of fuel pes "say ''assistant'' (execution_response out) s2"]
  obtain ps s' where
    "retry_loop (Suc fuel) w m pes False 1 (say ''assistant'' (execution_response out) s2)
       = (Returns (Transcript ps (Suc m)), s')"
    by blast
  with inv d x show ?thesis
    by (simp add: remediate_failure_with_def s0_def Let_def del: get_playbook_with_probing.simps)
qed

text \<open>
  C6. In every run of the remediation agent loop in which every verification fails, the
  action executor is invoked at most the retry limit plus one times, whether the run has
  returned or not; with the default limit of one retry that is at most twice. When the
  run returns the transcript, the attempt count it returns is that number of executions.
\<close>

theorem retry_bound:
  assumes "\<forall>k. \<not> verify_status w k"
  shows "count_ev is_execute (trace (snd (remediate_failure_with m fuel w re ns rc fc))) \<le> m + 1
    \<and> count_ev is_execute (trace (snd (remediate_failure fuel w re ns rc fc))) \<le> 2
    \<and> (\<forall>ps n. fst (remediate_failure_with m fuel w re ns rc fc) = Returns (Transcript ps n) \<longrightarrow>
          n = count_ev is_execute (trace (snd (remediate_failure_with m fuel w re ns rc fc)))
          \<and> n \<le> m + 1)"
proof -
  have a: "remediate_failure_with m fuel w re ns rc fc
      = (fst (remediate_failure_with m fuel w re ns rc fc), snd (remediate_failure_with m fuel w re ns rc fc))"
    by simp
  have b: "remediate_failure_with 1 fuel w re ns rc fc
      = (fst (remediate_failure_with 1 fuel w re ns rc fc), snd (remediate_failure_with 1 fuel w re ns rc fc))"
    by simp
  from remediate_counts [OF a] remediate_counts [OF b] show ?thesis
    by (auto simp: remediate_failure_def MAX_RETRY_TIME_def)
qed

lemmas loop_eval = remediate_failure_def remediate_failure_with_def MAX_RETRY_TIME_def
  execute_and_verify_def execute_playbook_and_get_response_def attempt_status_def Let_def
  world_exec_fails_def world_exec_times_out_def world_verify_fails_def fresh_def

theorem retry_bound_witness:
  "(\<forall>k. \<not> verify_status world_verify_fails k)
   \<and> count_ev is_execute
       (trace (snd (remediate_failure_with 1 1 world_verify_fails ''k3s'' ''default'' ''web'' ''cpu-stress''))) \<le> 1 + 1
   \<and> count_ev is_execute
       (trace (snd (remediate_failure 1 world_verify_fails ''k3s'' ''default'' ''web'' ''cpu-stress''))) = 2"
proof -
  have h: "\<forall>k. \<not> verify_status world_verify_fails k"
    by (simp add: world_verify_fails_def world_exec_fails_def)
  have run: "count_ev is_execute
       (trace (snd (remediate_failure 1 world_verify_fails ''k3s'' ''default'' ''web'' ''cpu-stress''))) = 2"
    by (simp add: loop_eval retry_loop.simps)
  from h run retry_bound [OF h, of 1 1 "''k3s''" "''default''" "''web''" "''cpu-stress''"]
  show ?thesis by simp
qed

text \<open>
  C1, as the code has it. An attempt verifies exactly when the action executor reports
  success: after a successful execution the loop waits for the settle delay and invokes
  the verification; after a failed execution (non-zero exit, timeout, missing
  executable) it invokes nothing more, and the attempt counts as not verified.
\<close>

theorem verification_only_after_successful_execution:
  assumes "execute_and_verify w code s = (Returns (status, verified, out), s')"
  shows "trace s' = trace s @ [EvExecute code] @ (if status then [EvSleep WAIT_REME_TIME, EvVerify] else [])
    \<and> (\<not> status \<longrightarrow> \<not> verified)
    \<and> (status \<longleftrightarrow> (\<exists>out err. execute w (count_ev is_execute (trace s)) = Exits 0 out err))"
proof -
  from assms have "status \<longleftrightarrow> (\<exists>out err. execute w (count_ev is_execute (trace s)) = Exits 0 out err)"
    by (auto simp: execute_and_verify_def execute_playbook_and_get_response_def Let_def
             split: exec_outcome.splits if_splits)
  with execute_and_verify_events [OF assms] show ?thesis by blast
qed

theorem verification_only_after_successful_execution_witness:
  "execute_and_verify world_verify_fails ''play'' fresh
     = (Returns (True, False, []), \<lparr>prompts = [], trace = [EvExecute ''play'', EvSleep 10, EvVerify]\<rparr>)
   \<and> trace \<lparr>prompts = [], trace = [EvExecute ''play'', EvSleep 10, EvVerify]\<rparr>
     = trace fresh @ [EvExecute ''play''] @ (if True then [EvSleep WAIT_REME_TIME, EvVerify] else [])"
proof -
  have run: "execute_and_verify world_verify_fails ''play'' fresh
     = (Returns (True, False, []), \<lparr>prompts = [], trace = [EvExecute ''play'', EvSleep 10, EvVerify]\<rparr>)"
    by (simp add: loop_eval emit_def WAIT_REME_TIME_def strip_def)
  from run verification_only_after_successful_execution [OF run] show ?thesis by simp
qed

text \<open>
  C1, as the claim states it, fails: with an action runner that exits with code 2, or
  that exceeds its timeout, the executor reports failure and the attempt ends without a
  verification; a whole run of the loop in that world executes twice and never verifies.
\<close>

theorem failed_execution_is_not_verified:
  "attempt_status (fst (execute_and_verify world_exec_fails ''play'' fresh)) = Some (False, False)
   \<and> trace (snd (execute_and_verify world_exec_fails ''play'' fresh)) = [EvExecute ''play'']
   \<and> attempt_status (fst (execute_and_verify world_exec_times_out ''play'' fresh)) = Some (False, False)
   \<and> trace (snd (execute_and_verify world_exec_times_out ''play'' fresh)) = [EvExecute ''play'']
   \<and> trace (snd (remediate_failure 1 world_exec_fails ''k3s'' ''default'' ''web'' ''cpu-stress''))
       = [EvChat, EvExecute ''- hosts: all'', EvChat, EvExecute ''- hosts: all'']"
  by (simp add: loop_eval retry_loop.simps emit_def say_def)

section \<open>Disk predicate: when the test file is removed\<close>

lemmas disk_eval = check_disk_io_performance_def disk_round_def disk_pod_def disk_pod_try_def
  disk_speed_def dd_output_def slow_pod_def fast_pod_def hung_pod_def

text \<open>The removal is issued for a pod exactly when its throughput check has passed.\<close>

lemma disk_pod_events:
  "fst (disk_pod m (p, dd, rm)) = [DdWrite p] \<or> fst (disk_pod m (p, dd, rm)) = [DdWrite p, CleanUp p]"
  by (auto simp: disk_pod_def disk_pod_try_def Let_def split: proc_result.splits sum.splits)

lemma disk_pod_passes_then_cleans:
  "snd (disk_pod m (p, dd, rm)) \<Longrightarrow> fst (disk_pod m (p, dd, rm)) = [DdWrite p, CleanUp p]"
  by (auto simp: disk_pod_def disk_pod_try_def Let_def split: proc_result.splits sum.splits if_splits)

lemma disk_pod_no_clean_up_without_speed:
  "CleanUp p \<in> set (fst (disk_pod m (p, Completed rc out err, rm))) \<Longrightarrow>
   \<exists>d speed. py_int (last (split_on (CHR 0x0A) (strip out))) = Inr d \<and> disk_speed d = Inr speed
      \<and> \<not> fless speed m"
  by (auto simp: disk_pod_def disk_pod_try_def Let_def split: proc_result.splits sum.splits if_splits)

text \<open>
  C7 at its failing inputs. A pod that writes at 5 MB/s against the threshold of 10 MB/s
  fails its check and no removal of the test file is issued; the same when the write
  command times out. Only the pod that passes (20 MB/s) has its test file removed. A
  predicate whose only round holds the slow pod returns false and leaves the file.
\<close>

theorem disk_clean_up_skipped_on_failure:
  "disk_pod (Fin 10) slow_pod = ([DdWrite ''nacosdb-mysql-0''], False)
   \<and> disk_pod (Fin 10) hung_pod = ([DdWrite ''nacosdb-mysql-0''], False)
   \<and> disk_pod (Fin 10) fast_pod = ([DdWrite ''nacosdb-mysql-0'', CleanUp ''nacosdb-mysql-0''], True)
   \<and> check_disk_io_performance [] [[slow_pod]] (Fin 10) = ([DdWrite ''nacosdb-mysql-0''], False)"
  by (simp add: disk_eval string_eval float_eval)

section \<open>Experiment orchestrator: what a pass logs and how it ends\<close>

lemma olog_logged [simp]: "olog (logged e st) = olog st @ [e]"
  by (simp add: logged_def)

lemma fields_logged [simp]:
  "current_experiment_no (logged e st) = current_experiment_no st"
  "failure_injection_failures (logged e st) = failure_injection_failures st"
  "success_count (logged e st) = success_count st"
  "total_remediation_tries (logged e st) = total_remediation_tries st"
  by (simp_all add: logged_def)

lemma now_logged [simp]: "now (logged e st) = Suc (now st)"
  by (simp add: now_def)

lemma events_since_append:
  "olog (step_state r) = olog st @ evs \<Longrightarrow> events_since st r = evs"
  by (simp add: events_since_def)







section \<open>Experiment orchestrator: which failures the campaign survives\<close>








section \<open>CPU and memory predicates: one fully passing round\<close>















section \<open>Network predicate: parsing, thresholds, exceptions\<close>

lemma py_float_error: "py_float s = Inl e \<Longrightarrow> e = ValueError"
  by (auto simp: py_float_def Let_def split: prod.splits option.splits if_splits)

lemma index_error: "index xs i = Inl e \<Longrightarrow> e = IndexError"
  by (auto simp: index_def split: if_splits)

lemma loss_of_line_error: "loss_of_line l = Inl e \<Longrightarrow> e = IndexError \<or> e = ValueError"
  by (auto simp: loss_of_line_def split: sum.splits dest: index_error py_float_error)

lemma latency_of_line_error: "latency_of_line l = Inl e \<Longrightarrow> e = IndexError \<or> e = ValueError"
  by (auto simp: latency_of_line_def split: sum.splits dest: index_error py_float_error)

text \<open>Parsing the summary never raises: the two handlers absorb what the parsers raise.\<close>

lemma loss_in_lines_total: "\<exists>x. loss_in_lines ls = Inr x"
proof (induction ls)
  case Nil
  show ?case by simp
next
  case (Cons l ls)
  show ?case
  proof (cases "loss_of_line l")
    case (Inl e)
    with loss_of_line_error [OF Inl] Cons show ?thesis by (auto simp: except_index_value_def)
  next
    case (Inr x)
    with Cons show ?thesis by (auto simp: except_index_value_def)
  qed
qed

lemma latency_in_lines_total: "\<exists>x. latency_in_lines ls = Inr x"
proof (induction ls)
  case Nil
  show ?case by simp
next
  case (Cons l ls)
  show ?case
  proof (cases "latency_of_line l")
    case (Inl e)
    with latency_of_line_error [OF Inl] Cons show ?thesis by (auto simp: except_index_value_def)
  next
    case (Inr x)
    with Cons show ?thesis by (auto simp: except_index_value_def)
  qed
qed

lemma ping_judge_total: "ping_judge ml mx rc out \<noteq> Inl e"
proof -
  obtain loss where l: "loss_in_lines (split_on (CHR 0x0A) out) = Inr loss"
    using loss_in_lines_total by blast
  obtain lat where t: "latency_in_lines (split_on (CHR 0x0A) out) = Inr lat"
    using latency_in_lines_total by blast
  show ?thesis by (cases lat) (simp_all add: ping_judge_def l t)
qed

text \<open>Without a summary line the loss is 100, and the pod fails any threshold below 100.\<close>

lemma loss_default:
  "\<forall>l \<in> set ls. \<not> (contains ''packet loss'' l \<and> contains ''transmitted'' l) \<Longrightarrow>
   loss_in_lines ls = Inr (Fin 100)"
  by (induction ls) auto

lemma loss_unparsable:
  "contains ''packet loss'' l \<and> contains ''transmitted'' l \<Longrightarrow> loss_of_line l = Inl e \<Longrightarrow>
   loss_in_lines (l # ls) = Inr (Fin 100)"
  using loss_of_line_error [of l e] by (auto simp: except_index_value_def)

lemma ping_judge_without_summary:
  assumes "\<forall>l \<in> set (split_on (CHR 0x0A) out). \<not> (contains ''packet loss'' l \<and> contains ''transmitted'' l)"
    and "m < 100"
  shows "ping_judge ml (Fin m) rc out = Inr False"
  using loss_default [OF assms(1)] assms(2) by (simp add: ping_judge_def)

text \<open>
  A pod passes only with a parsed loss that is not above the loss threshold and a parsed
  latency that is not above the latency threshold; for figures that are numbers this is
  \<open>\<le>\<close>.
\<close>

lemma ping_judge_true:
  assumes "ping_judge ml mx rc out = Inr True"
  shows "\<exists>loss lat. loss_in_lines (split_on (CHR 0x0A) out) = Inr loss
           \<and> latency_in_lines (split_on (CHR 0x0A) out) = Inr (Some lat)
           \<and> \<not> fless mx loss \<and> \<not> fless ml lat"
  using assms
  by (auto simp: ping_judge_def split: if_splits sum.splits option.splits)

lemma not_fless_fle: "x \<noteq> NaN \<Longrightarrow> y \<noteq> NaN \<Longrightarrow> \<not> fless y x \<longleftrightarrow> fle x y"
  by (cases x; cases y) auto

lemma ping_pod_try_raises_only_from_exec:
  "ping_pod_try ml mx main sidecar = Inl e \<Longrightarrow> main = ProcRaises e \<or> sidecar = ProcRaises e"
  by (auto simp: ping_pod_try_def Let_def ping_judge_total split: proc_result.splits if_splits)

lemma ping_pods_iff:
  "ping_pods ml mx ps ok \<longleftrightarrow> ok \<and> (\<forall>p \<in> set ps. ping_pod ml mx p)"
  by (induction ps arbitrary: ok) auto

lemma ping_loop_iff:
  "ping_loop ml mx rounds \<longleftrightarrow> (\<exists>r \<in> set rounds. r \<noteq> [] \<and> (\<forall>p \<in> set r. ping_pod ml mx p))"
  by (induction rounds) (auto simp: ping_round_def ping_pods_iff)

lemma ping_timeout: "check_ping_latency_recovered polls [] ml mx = False"
  by (simp add: check_ping_latency_recovered_def)

lemmas ping_eval = check_ping_latency_recovered_def ping_round_def ping_pod_def ping_pod_try_def
  ping_judge_def loss_of_line_def latency_of_line_def index_def except_index_value_def
  ping_healthy_def ping_garbage_def ping_nan_def

lemma ping_healthy_passes: "ping_judge (Fin 1000) (Fin 0) 0 ping_healthy = Inr True"
  by (simp add: ping_eval string_eval float_eval)

lemma ping_garbage_fails: "ping_judge (Fin 1000) (Fin 0) 0 ping_garbage = Inr False"
  by (simp add: ping_eval string_eval float_eval)

text \<open>
  C8 at its failing input. A ping summary whose loss and latency read \<open>nan\<close> parses to
  not-a-number, which is not less than or equal to any threshold; yet neither comparison
  \<open>>\<close> of the predicate holds for it, so the pod passes and the predicate returns true.
\<close>

theorem ping_accepts_not_a_number:
  "loss_in_lines (split_on (CHR 0x0A) ping_nan) = Inr NaN
   \<and> latency_in_lines (split_on (CHR 0x0A) ping_nan) = Inr (Some NaN)
   \<and> \<not> fle NaN (Fin 0) \<and> \<not> fle NaN (Fin 1000)
   \<and> ping_judge (Fin 1000) (Fin 0) 0 ping_nan = Inr True
   \<and> check_ping_latency_recovered [] [[(Completed 0 ping_nan [], Completed 0 [] [])]] (Fin 1000) (Fin 0)"
  by (simp add: ping_eval string_eval float_eval)

section \<open>Streamed response: the loop against its description\<close>

text \<open>The loop over the lines is the fold over the decoded chunks it reaches.\<close>

lemma stream_loop_fold:
  "stream_loop jl lines st = chunk_steps st (stream_chunks jl lines)"
proof (induction lines arbitrary: st)
  case Nil
  show ?case by simp
next
  case (Cons line rest)
  show ?case
  proof (cases "line \<noteq> [] \<and> startswith line ''data: '' \<and> strip (drop 6 line) \<noteq> ''[DONE]''")
    case False
    with Cons show ?thesis by (auto simp: Let_def)
  next
    case True
    show ?thesis
    proof (cases "jl (drop 6 line)")
      case None
      with True Cons show ?thesis by (simp add: Let_def)
    next
      case (Some ch)
      with True Cons show ?thesis by (cases "chunk_step st ch") (simp_all add: Let_def)
    qed
  qed
qed

lemma tool_call_steps_append:
  "tool_call_steps calls (xs @ ys) =
     (case tool_call_steps calls xs of Inl e \<Rightarrow> Inl e | Inr c \<Rightarrow> tool_call_steps c ys)"
  by (induction xs arbitrary: calls) (auto split: sum.splits)

lemma map_filter_Cons:
  "List.map_filter f (x # xs) = (case f x of None \<Rightarrow> List.map_filter f xs | Some y \<Rightarrow> y # List.map_filter f xs)"
  by (simp add: List.map_filter_def split: option.splits)

lemma map_filter_Nil: "List.map_filter f [] = []"
  by (simp add: List.map_filter_def)

text \<open>
  A fold that returns has accumulated the content fragments of its events and has run
  their tool-call chunks through the dictionary.
\<close>

lemma chunk_steps_result:
  "chunk_steps st chs = Inr st' \<Longrightarrow>
   fst st' = fst st @ concat (content_fragments (List.map_filter first_delta chs))
   \<and> tool_call_steps (snd st) (call_fragments (List.map_filter first_delta chs)) = Inr (snd st')"
proof (induction chs arbitrary: st)
  case Nil
  then show ?case by (simp add: content_fragments_def call_fragments_def map_filter_Nil)
next
  case (Cons ch chs)
  from Cons.prems obtain st1 where s1: "chunk_step st ch = Inr st1" and r: "chunk_steps st1 chs = Inr st'"
    by (auto split: sum.splits)
  note ih = Cons.IH [OF r]
  show ?case
  proof (cases ch)
    case Nil
    with s1 have "st1 = st" by (simp add: chunk_step_def)
    with ih Nil show ?thesis by (simp add: map_filter_Cons)
  next
    case (Cons c cs)
    show ?thesis
    proof (cases c)
      case None
      with Cons s1 show ?thesis by (simp add: chunk_step_def)
    next
      case (Some d)
      with Cons s1 obtain calls where
        c: "tool_call_steps (snd st) (d_tool_calls d) = Inr calls"
        and s: "st1 = ((case d_content d of Str c \<Rightarrow> fst st @ c | _ \<Rightarrow> fst st), calls)"
        by (auto simp: chunk_step_def Let_def split: sum.splits)
      have t: "fst st1 = fst st @ concat (content_fragments [d])"
        using s by (cases "d_content d") (simp_all add: content_fragments_def map_filter_Cons map_filter_Nil)
      have fd: "List.map_filter first_delta (ch # chs) = d # List.map_filter first_delta chs"
        using Cons Some by (simp add: map_filter_Cons)
      have "content_fragments (d # List.map_filter first_delta chs)
              = content_fragments [d] @ content_fragments (List.map_filter first_delta chs)"
        by (cases "d_content d") (simp_all add: content_fragments_def map_filter_Cons map_filter_Nil)
      moreover have "tool_call_steps (snd st) (call_fragments (d # List.map_filter first_delta chs)) = Inr (snd st')"
        using c ih s by (simp add: call_fragments_def tool_call_steps_append)
      ultimately show ?thesis using ih t fd by simp
    qed
  qed
qed

text \<open>What the fragments of one index do to its entry.\<close>

lemma apply_fragments_Cons:
  "apply_fragments (tc # fr) c = apply_fragments fr (apply_function (tc_function tc) c)"
  by (simp add: apply_fragments_def)

lemma apply_function_fields:
  "call_id (apply_function f c) = call_id c"
  "call_type (apply_function f c) = call_type c"
  "arguments (apply_function f c) =
     arguments c @ (case f of None \<Rightarrow> [] | Some fc \<Rightarrow> (case fragment (farguments fc) of None \<Rightarrow> [] | Some a \<Rightarrow> a))"
  "name (apply_function f c) =
     (case f of None \<Rightarrow> name c | Some fc \<Rightarrow> (case fragment (fname fc) of None \<Rightarrow> name c | Some n \<Rightarrow> n))"
  by (auto simp: apply_function_def Let_def split: option.splits)

lemma apply_fragments_fields:
  "call_id (apply_fragments fr c) = call_id c
   \<and> call_type (apply_fragments fr c) = call_type c
   \<and> arguments (apply_fragments fr c) = arguments c @ concat (argument_fragments fr)
   \<and> name (apply_fragments fr c) = (if name_fragments fr = [] then name c else last (name_fragments fr))"
proof (induction fr arbitrary: c)
  case Nil
  show ?case by (simp add: apply_fragments_def argument_fragments_def name_fragments_def map_filter_Nil)
next
  case (Cons tc fr)
  show ?case
    using Cons.IH [of "apply_function (tc_function tc) c"]
    by (auto simp: apply_fragments_Cons apply_function_fields argument_fragments_def name_fragments_def
          map_filter_Cons split: option.splits)
qed

lemma apply_fragments_new_call:
  "fragments_at i tcs = tc # fr \<Longrightarrow>
   apply_fragments (tc # fr) (new_call tc) = reassembled_call last tcs i"
  using apply_fragments_fields [of "tc # fr" "new_call tc"]
  by (intro tool_call.equality) (simp_all add: reassembled_call_def new_call_def Let_def)

text \<open>
  The dictionary after a run of tool-call chunks: every chunk had its index, the keys
  stay distinct, they are the old keys and the indices seen, and each entry is the old
  entry, or a new one made from the first chunk of its index, with all the fragments of
  that index applied.
\<close>

lemma tool_call_steps_result:
  "tool_call_steps calls tcs = Inr calls' \<Longrightarrow>
   (\<forall>tc \<in> set tcs. tc_index tc \<noteq> None)
   \<and> (distinct (map fst calls) \<longrightarrow> distinct (map fst calls'))
   \<and> set (map fst calls') = set (map fst calls) \<union> set (List.map_filter tc_index tcs)
   \<and> (\<forall>i. map_of calls' i =
         (case map_of calls i of
            Some c \<Rightarrow> Some (apply_fragments (fragments_at i tcs) c)
          | None \<Rightarrow> (case fragments_at i tcs of
                       [] \<Rightarrow> None
                     | tc # fr \<Rightarrow> Some (apply_fragments (tc # fr) (new_call tc)))))"
proof (induction tcs arbitrary: calls)
  case Nil
  then show ?case
    by (auto simp: fragments_at_def apply_fragments_def map_filter_Nil split: option.splits)
next
  case (Cons tc tcs)
  from Cons.prems obtain j where j: "tc_index tc = Some j"
    by (auto simp: tool_call_step_def split: option.splits)
  define cur where "cur = (case map_of calls j of None \<Rightarrow> new_call tc | Some c \<Rightarrow> c)"
  define calls1 where "calls1 = AList.update j (apply_function (tc_function tc) cur) calls"
  from Cons.prems j have r: "tool_call_steps calls1 tcs = Inr calls'"
    by (simp add: tool_call_step_def calls1_def cur_def Let_def)
  note ih = Cons.IH [OF r]
  have m1: "map_of calls1 = (map_of calls)(j \<mapsto> apply_function (tc_function tc) cur)"
    by (simp add: calls1_def update_conv')
  have k1: "set (map fst calls1) = insert j (set (map fst calls))"
    using dom_update [of j "apply_function (tc_function tc) cur" calls]
    by (simp add: calls1_def)
  have d1: "distinct (map fst calls) \<Longrightarrow> distinct (map fst calls1)"
    by (simp add: calls1_def distinct_update)
  have a: "\<forall>tc' \<in> set (tc # tcs). tc_index tc' \<noteq> None"
    using ih j by simp
  have b: "distinct (map fst calls) \<longrightarrow> distinct (map fst calls')"
    using ih d1 by blast
  have c: "set (map fst calls') = set (map fst calls) \<union> set (List.map_filter tc_index (tc # tcs))"
    using ih k1 j by (auto simp: map_filter_Cons)
  have d: "map_of calls' i =
         (case map_of calls i of
            Some c \<Rightarrow> Some (apply_fragments (fragments_at i (tc # tcs)) c)
          | None \<Rightarrow> (case fragments_at i (tc # tcs) of
                       [] \<Rightarrow> None
                     | tc' # fr \<Rightarrow> Some (apply_fragments (tc' # fr) (new_call tc'))))" for i
  proof (cases "i = j")
    case True
    have f: "fragments_at j (tc # tcs) = tc # fragments_at j tcs"
      using j by (simp add: fragments_at_def)
    from ih have "map_of calls' j = Some (apply_fragments (fragments_at j tcs) (apply_function (tc_function tc) cur))"
      by (simp add: m1)
    with True f show ?thesis
      by (cases "map_of calls j") (simp_all add: cur_def apply_fragments_Cons)
  next
    case False
    have f: "fragments_at i (tc # tcs) = fragments_at i tcs"
      using j False by (simp add: fragments_at_def)
    from ih False have "map_of calls' i =
         (case map_of calls i of
            Some c \<Rightarrow> Some (apply_fragments (fragments_at i tcs) c)
          | None \<Rightarrow> (case fragments_at i tcs of
                       [] \<Rightarrow> None
                     | tc' # fr \<Rightarrow> Some (apply_fragments (tc' # fr) (new_call tc'))))"
      by (simp add: m1)
    then show ?thesis unfolding f .
  qed
  from a b c d show ?case by blast
qed

lemma sort_distinct_eq:
  "distinct xs \<Longrightarrow> set xs = set ys \<Longrightarrow> sort xs = sort (remdups ys)"
  by (metis distinct_remdups_id sorted_list_of_set_sort_remdups)

text \<open>The message the loop returns is the one described, with the last name fragment.\<close>

lemma finish_message_reassembled:
  assumes "tool_call_steps [] tcs = Inr calls"
  shows "tool_calls (finish_message (body, calls)) = map (reassembled_call last tcs) (streamed_indices tcs)"
    and "calls \<noteq> [] \<longleftrightarrow> tcs \<noteq> []"
proof -
  from tool_call_steps_result [OF assms]
  have idx: "\<forall>tc \<in> set tcs. tc_index tc \<noteq> None"
    and dist: "distinct (map fst calls)"
    and keys: "set (map fst calls) = set (List.map_filter tc_index tcs)"
    and ent: "\<And>i. map_of calls i =
         (case fragments_at i tcs of [] \<Rightarrow> None | tc # fr \<Rightarrow> Some (apply_fragments (tc # fr) (new_call tc)))"
    by simp_all
  have srt: "sort (map fst calls) = streamed_indices tcs"
    unfolding streamed_indices_def using sort_distinct_eq [OF dist keys] .
  have each: "the (map_of calls i) = reassembled_call last tcs i" if "i \<in> set (streamed_indices tcs)" for i
  proof -
    from that keys srt have "i \<in> set (map fst calls)" by (metis set_sort)
    then obtain c where "map_of calls i = Some c"
      by (metis map_of_eq_None_iff not_None_eq set_map)
    with ent [of i] obtain tc fr where f: "fragments_at i tcs = tc # fr"
      and c: "c = apply_fragments (tc # fr) (new_call tc)"
      by (cases "fragments_at i tcs") auto
    from apply_fragments_new_call [OF f] c \<open>map_of calls i = Some c\<close> show ?thesis by simp
  qed
  have ne: "calls \<noteq> [] \<longleftrightarrow> tcs \<noteq> []"
  proof
    assume "calls \<noteq> []"
    then have "set (map fst calls) \<noteq> {}" by simp
    with keys show "tcs \<noteq> []" by (auto simp: map_filter_Nil)
  next
    assume "tcs \<noteq> []"
    then obtain tc rest where "tcs = tc # rest" by (cases tcs) auto
    with idx obtain j where "tc_index tc = Some j" by auto
    with \<open>tcs = tc # rest\<close> have "j \<in> set (List.map_filter tc_index tcs)" by (simp add: map_filter_Cons)
    with keys show "calls \<noteq> []" by auto
  qed
  show "calls \<noteq> [] \<longleftrightarrow> tcs \<noteq> []" by (rule ne)
  show "tool_calls (finish_message (body, calls)) = map (reassembled_call last tcs) (streamed_indices tcs)"
  proof (cases "calls = []")
    case True
    with ne have "tcs = []" by simp
    with True show ?thesis
      by (simp add: finish_message_def streamed_indices_def map_filter_Nil)
  next
    case False
    then have "tool_calls (finish_message (body, calls)) = map (\<lambda>i. the (map_of calls i)) (streamed_indices tcs)"
      by (simp add: finish_message_def srt)
    also have "\<dots> = map (reassembled_call last tcs) (streamed_indices tcs)"
      using each by (intro map_cong) auto
    finally show ?thesis .
  qed
qed

lemma parse_streamed_response_reassembles:
  assumes "parse_streamed_response jl lines = Inr m"
  shows "m = reassembled_message last (stream_events jl lines)"
proof -
  from assms obtain st where st: "stream_loop jl lines ([], []) = Inr st" and m: "m = finish_message st"
    by (auto simp: parse_streamed_response_def split: sum.splits)
  define ds where "ds = stream_events jl lines"
  from st have "chunk_steps ([], []) (stream_chunks jl lines) = Inr st"
    by (simp add: stream_loop_fold)
  from chunk_steps_result [OF this]
  have cont: "fst st = concat (content_fragments ds)"
    and calls: "tool_call_steps [] (call_fragments ds) = Inr (snd st)"
    by (simp_all add: ds_def stream_events_def)
  from finish_message_reassembled(1) [OF calls, of "fst st"]
  have tc: "tool_calls (finish_message st) = map (reassembled_call last (call_fragments ds)) (streamed_indices (call_fragments ds))"
    by simp
  from finish_message_reassembled(2) [OF calls]
  have ne: "snd st \<noteq> [] \<longleftrightarrow> call_fragments ds \<noteq> []" .
  have "finish_message st = reassembled_message last ds"
    using tc ne cont
    by (intro message.equality) (auto simp: finish_message_def reassembled_message_def Let_def)
  with m show ?thesis by (simp add: ds_def)
qed

text \<open>On a well-formed stream the loop returns.\<close>

lemma tool_call_steps_returns:
  "list_all (\<lambda>tc. tc_index tc \<noteq> None) tcs \<Longrightarrow> \<exists>calls'. tool_call_steps calls tcs = Inr calls'"
  by (induction tcs arbitrary: calls) (auto simp: tool_call_step_def Let_def)

lemma chunk_steps_returns:
  "list_all well_formed_chunk chs \<Longrightarrow> \<exists>st'. chunk_steps st chs = Inr st'"
proof (induction chs arbitrary: st)
  case Nil
  show ?case by simp
next
  case (Cons ch chs)
  then have wf: "well_formed_chunk ch" and rest: "list_all well_formed_chunk chs" by simp_all
  have "\<exists>st1. chunk_step st ch = Inr st1"
  proof (cases ch)
    case Nil
    then show ?thesis by (simp add: chunk_step_def)
  next
    case (Cons c cs)
    with wf obtain d where d: "c = Some d" and i: "list_all (\<lambda>tc. tc_index tc \<noteq> None) (d_tool_calls d)"
      by (cases c) auto
    from tool_call_steps_returns [OF i] obtain calls' where "tool_call_steps (snd st) (d_tool_calls d) = Inr calls'"
      by blast
    with Cons d show ?thesis by (simp add: chunk_step_def Let_def)
  qed
  then obtain st1 where "chunk_step st ch = Inr st1" by blast
  with Cons.IH [OF rest, of st1] show ?case by simp
qed

lemma sorted_streamed_indices: "sorted (streamed_indices tcs) \<and> distinct (streamed_indices tcs)"
  by (simp add: streamed_indices_def)

text \<open>
  C9, as the code has it. For every finite sequence of lines whose decoded chunks are well
  formed, \<open>parse_streamed_response\<close> returns; and whenever it returns, the message is the
  reassembled one: its tool calls in ascending order of index without repetition, the
  arguments of each the concatenation in stream order of the argument fragments carried
  for its index, its name the last non-empty name fragment carried for its index (empty
  when there is none), its identifier and type those of the first chunk of its index,
  and its content \<open>None\<close> exactly when tool calls are present and no content was
  accumulated.
\<close>

theorem streamed_response_reassembled:
  "(list_all well_formed_chunk (stream_chunks jl lines) \<longrightarrow> (\<exists>m. parse_streamed_response jl lines = Inr m))
   \<and> (parse_streamed_response jl lines = Inr m \<longrightarrow>
        m = reassembled_message last (stream_events jl lines)
        \<and> sorted (streamed_indices (call_fragments (stream_events jl lines)))
        \<and> distinct (streamed_indices (call_fragments (stream_events jl lines)))
        \<and> (content m = None \<longleftrightarrow>
             call_fragments (stream_events jl lines) \<noteq> []
             \<and> concat (content_fragments (stream_events jl lines)) = []))"
proof (intro conjI impI)
  assume wf: "list_all well_formed_chunk (stream_chunks jl lines)"
  from chunk_steps_returns [OF wf, of "([], [])"]
  show "\<exists>m. parse_streamed_response jl lines = Inr m"
    by (auto simp: parse_streamed_response_def stream_loop_fold)
next
  assume "parse_streamed_response jl lines = Inr m"
  then show "m = reassembled_message last (stream_events jl lines)"
    by (rule parse_streamed_response_reassembles)
next
  show "sorted (streamed_indices (call_fragments (stream_events jl lines)))"
    by (simp add: sorted_streamed_indices)
next
  show "distinct (streamed_indices (call_fragments (stream_events jl lines)))"
    by (simp add: sorted_streamed_indices)
next
  assume "parse_streamed_response jl lines = Inr m"
  then have "m = reassembled_message last (stream_events jl lines)"
    by (rule parse_streamed_response_reassembles)
  then show "content m = None \<longleftrightarrow>
             call_fragments (stream_events jl lines) \<noteq> []
             \<and> concat (content_fragments (stream_events jl lines)) = []"
    by (simp add: reassembled_message_def Let_def)
qed

lemmas stream_eval = parse_streamed_response_def finish_message_def chunk_step_def tool_call_step_def
  apply_function_def new_call_def stream_events_def reassembled_message_def reassembled_call_def
  call_fragments_def fragments_at_def argument_fragments_def name_fragments_def content_fragments_def
  streamed_indices_def map_filter_Cons map_filter_Nil decoder_def chunk_a_def chunk_b_def two_names_def
  startswith_def strip_def is_space_def Let_def

lemma two_names_parsed:
  "parse_streamed_response decoder two_names
     = Inr \<lparr>role = ''assistant'', content = None,
            tool_calls = [\<lparr>call_id = Some ''call_1'', call_type = Some ''function'',
                           name = ''print_playbook'', arguments = ''{code: - hosts: all}''\<rparr>]\<rparr>"
  by (simp add: stream_eval)

theorem streamed_response_reassembled_witness:
  "list_all well_formed_chunk (stream_chunks decoder two_names)
   \<and> parse_streamed_response decoder two_names
       = Inr \<lparr>role = ''assistant'', content = None,
              tool_calls = [\<lparr>call_id = Some ''call_1'', call_type = Some ''function'',
                             name = ''print_playbook'', arguments = ''{code: - hosts: all}''\<rparr>]\<rparr>
   \<and> \<lparr>role = ''assistant'', content = None,
        tool_calls = [\<lparr>call_id = Some ''call_1'', call_type = Some ''function'',
                       name = ''print_playbook'', arguments = ''{code: - hosts: all}''\<rparr>]\<rparr>
       = reassembled_message last (stream_events decoder two_names)"
proof -
  have wf: "list_all well_formed_chunk (stream_chunks decoder two_names)"
    by (simp add: stream_eval)
  from wf two_names_parsed streamed_response_reassembled [of decoder two_names
      "\<lparr>role = ''assistant'', content = None,
        tool_calls = [\<lparr>call_id = Some ''call_1'', call_type = Some ''function'',
                       name = ''print_playbook'', arguments = ''{code: - hosts: all}''\<rparr>]\<rparr>"]
  show ?thesis by blast
qed

text \<open>
  C9, as the claim states it, fails: where two chunks of one index carry different
  non-empty names, the message has the last of them, not the first.
\<close>

theorem name_is_last_fragment_not_first:
  "map name (tool_calls (reassembled_message hd (stream_events decoder two_names))) = [''probe_system'']
   \<and> parse_streamed_response decoder two_names
       = Inr \<lparr>role = ''assistant'', content = None,
              tool_calls = [\<lparr>call_id = Some ''call_1'', call_type = Some ''function'',
                             name = ''print_playbook'', arguments = ''{code: - hosts: all}''\<rparr>]\<rparr>
   \<and> parse_streamed_response decoder two_names \<noteq> Inr (reassembled_message hd (stream_events decoder two_names))"
  by (simp add: stream_eval)

end
